theory Spec2Isabelle
  imports Complex_Main
begin

section \<open>JavaScript strings\<close>

text \<open>
  Strings are lists of 8-bit characters, each standing for the code unit of the same
  number; code units above 255 are not modelled. Within that range the characters that
  \<^verbatim>\<open>String.prototype.trim\<close> strips and that the regular expression class
  \<^verbatim>\<open>\s\<close> matches are the same seven: TAB, LF, VT, FF, CR, SPACE and NBSP.
\<close>

definition isSpace :: "char \<Rightarrow> bool" where
  "isSpace c = (c \<in> set [CHR 0x09, CHR 0x0A, CHR 0x0B, CHR 0x0C, CHR 0x0D, CHR 0x20, CHR 0xA0])"

definition trimStart :: "string \<Rightarrow> string" where
  "trimStart s = dropWhile isSpace s"

definition trimEnd :: "string \<Rightarrow> string" where
  "trimEnd s = rev (dropWhile isSpace (rev s))"

definition trim :: "string \<Rightarrow> string" where
  "trim s = trimEnd (trimStart s)"

text \<open>
  \<^verbatim>\<open>s.substring(a, b)\<close>: both indices are clamped to the length of the string and
  swapped when the first is the larger one.
\<close>

definition substring :: "nat \<Rightarrow> nat \<Rightarrow> string \<Rightarrow> string" where
  "substring a b s =
     (let n = length s; a' = min a n; b' = min b n; lo = min a' b'; hi = max a' b'
      in take (hi - lo) (drop lo s))"

definition startsWith :: "string \<Rightarrow> string \<Rightarrow> bool" where
  "startsWith p s = (take (length p) s = p)"

text \<open>\<^verbatim>\<open>s[i]\<close>: the character at position \<open>i\<close>, \<^verbatim>\<open>undefined\<close> (here \<open>None\<close>) out of range.\<close>

definition charAt :: "string \<Rightarrow> nat \<Rightarrow> char option" where
  "charAt s i = (if i < length s then Some (s ! i) else None)"

text \<open>
  The characters of a line whose 0-based positions lie in the half-open range
  \<open>[a, b)\<close>, as far as the line has them. This is the reading of a character
  window used to state the field ranges; it is not taken from the source.
\<close>

definition charRange :: "nat \<Rightarrow> nat \<Rightarrow> string \<Rightarrow> string" where
  "charRange a b s = map (\<lambda>i. s ! i) (filter (\<lambda>i. i < length s) [a..<b])"

section \<open>Field extractors\<close>

definition field1 :: "string \<Rightarrow> string" where
  "field1 line = trim (substring 1 3 line)"

definition field2 :: "string \<Rightarrow> string" where
  "field2 line = trim (substring 4 12 line)"

definition field3 :: "string \<Rightarrow> string" where
  "field3 line = trim (substring 14 22 line)"

definition field4 :: "string \<Rightarrow> string" where
  "field4 line = trim (substring 24 36 line)"

definition field5 :: "string \<Rightarrow> string" where
  "field5 line = trim (substring 39 47 line)"

definition field6 :: "string \<Rightarrow> string" where
  "field6 line = trim (substring 49 61 line)"

section \<open>Solution report: column inference\<close>

text \<open>
  \<^verbatim>\<open>[...s.matchAll(/[^\s]+/g)]\<close>: the maximal runs of non-whitespace characters of
  \<open>s\<close>, from left to right, each with the index at which it starts. \<open>matchAllFrom i s\<close>
  scans the rest \<open>s\<close> of the string, which starts at index \<open>i\<close>.
\<close>

function matchAllFrom :: "nat \<Rightarrow> string \<Rightarrow> (nat \<times> string) list" where
  "matchAllFrom i [] = []"
| "matchAllFrom i (c # cs) =
     (if isSpace c then matchAllFrom (Suc i) cs
      else (i, c # takeWhile (\<lambda>x. \<not> isSpace x) cs)
             # matchAllFrom (Suc i + length (takeWhile (\<lambda>x. \<not> isSpace x) cs))
                 (dropWhile (\<lambda>x. \<not> isSpace x) cs))"
  by pat_completeness auto
termination
  by (relation "measure (\<lambda>(i, s). length s)")
     (auto simp: less_Suc_eq_le length_dropWhile_le)

definition matchAll :: "string \<Rightarrow> (nat \<times> string) list" where
  "matchAll s = matchAllFrom 0 s"

definition headersForNonEmptyColumns :: "string \<Rightarrow> string \<Rightarrow> string list" where
  "headersForNonEmptyColumns headerLine firstDataLine =
     map snd
       (filter
          (\<lambda>(idx, tok).
             charAt firstDataLine idx \<noteq> Some CHR '' '' \<or>
             charAt firstDataLine (idx + length tok - 1) \<noteq> Some CHR '' '')
          (matchAll headerLine))"

section \<open>JavaScript numbers\<close>

text \<open>
  A number is NaN, one of the two infinities, or a finite value. Finite values are
  exact rationals: rounding to a 64-bit float and the sign of zero are not modelled, so
  a literal or a sum beyond the precision or the range of a float keeps its exact value
  here, where the code rounds it, or has an infinity or zero. Whether a text reads as
  NaN is the same here and in the code, and the values 0, 1, 4, 5, 6, 10 and 14 of the
  statements below are exact in both.
\<close>

datatype number = NaN | NegInf | Finite rat | PosInf

fun isNaN :: "number \<Rightarrow> bool" where
  "isNaN NaN = True"
| "isNaN _ = False"

fun numNeg :: "number \<Rightarrow> number" where
  "numNeg NaN = NaN"
| "numNeg NegInf = PosInf"
| "numNeg PosInf = NegInf"
| "numNeg (Finite x) = Finite (- x)"

fun numAbs :: "number \<Rightarrow> number" where
  "numAbs NaN = NaN"
| "numAbs NegInf = PosInf"
| "numAbs PosInf = PosInf"
| "numAbs (Finite x) = Finite \<bar>x\<bar>"

fun numAdd :: "number \<Rightarrow> number \<Rightarrow> number" where
  "numAdd NaN _ = NaN"
| "numAdd _ NaN = NaN"
| "numAdd PosInf NegInf = NaN"
| "numAdd NegInf PosInf = NaN"
| "numAdd PosInf _ = PosInf"
| "numAdd _ PosInf = PosInf"
| "numAdd NegInf _ = NegInf"
| "numAdd _ NegInf = NegInf"
| "numAdd (Finite x) (Finite y) = Finite (x + y)"

definition numSub :: "number \<Rightarrow> number \<Rightarrow> number" where
  "numSub a b = numAdd a (numNeg b)"

fun numLess :: "number \<Rightarrow> number \<Rightarrow> bool" where
  "numLess NaN _ = False"
| "numLess _ NaN = False"
| "numLess _ NegInf = False"
| "numLess NegInf _ = True"
| "numLess PosInf _ = False"
| "numLess _ PosInf = True"
| "numLess (Finite x) (Finite y) = (x < y)"

text \<open>
  \<^verbatim>\<open>parseFloat\<close>: leading whitespace is skipped, then the longest prefix that is a
  decimal literal (optional sign, then \<^verbatim>\<open>Infinity\<close> or digits with an optional
  fraction and an optional exponent) gives the value; NaN when there is no such prefix.
\<close>

definition isDigit :: "char \<Rightarrow> bool" where
  "isDigit c = (48 \<le> (of_char c :: nat) \<and> (of_char c :: nat) \<le> 57)"

definition digitsValue :: "string \<Rightarrow> nat" where
  "digitsValue ds = foldl (\<lambda>acc c. 10 * acc + (of_char c - 48)) 0 ds"

definition exponentPart :: "string \<Rightarrow> int" where
  "exponentPart s =
     (case s of
        [] \<Rightarrow> 0
      | c # r \<Rightarrow>
          if c = CHR ''e'' \<or> c = CHR ''E'' then
            (case r of
               [] \<Rightarrow> 0
             | d # r' \<Rightarrow>
                 if d = CHR ''-'' then - int (digitsValue (takeWhile isDigit r'))
                 else if d = CHR ''+'' then int (digitsValue (takeWhile isDigit r'))
                 else int (digitsValue (takeWhile isDigit r)))
          else 0)"

definition scale10 :: "rat \<Rightarrow> int \<Rightarrow> rat" where
  "scale10 x e = (if 0 \<le> e then x * 10 ^ nat e else x / 10 ^ nat (- e))"

definition parseUnsigned :: "string \<Rightarrow> number" where
  "parseUnsigned u =
     (if startsWith ''Infinity'' u then PosInf
      else
        let ip = takeWhile isDigit u;
            r1 = dropWhile isDigit u;
            hasDot = (case r1 of [] \<Rightarrow> False | c # _ \<Rightarrow> c = CHR ''.'');
            fp = (if hasDot then takeWhile isDigit (tl r1) else []);
            r2 = (if hasDot then dropWhile isDigit (tl r1) else r1)
        in if ip = [] \<and> fp = [] then NaN
           else Finite (scale10 (of_nat (digitsValue (ip @ fp)))
                          (exponentPart r2 - int (length fp))))"

definition parseFloat :: "string \<Rightarrow> number" where
  "parseFloat s =
     (case trimStart s of
        [] \<Rightarrow> NaN
      | c # r \<Rightarrow>
          if c = CHR ''-'' then numNeg (parseUnsigned r)
          else if c = CHR ''+'' then parseUnsigned r
          else parseUnsigned (c # r))"

section \<open>JavaScript maps and sets\<close>

text \<open>
  A \<^verbatim>\<open>Map\<close> keeps its keys in insertion order: an association list with distinct
  keys. \<^verbatim>\<open>set\<close> replaces the value of a key that is present where it stands and
  appends a new key at the end. A \<^verbatim>\<open>Set\<close> is a list without duplicates.
\<close>

definition mapGet :: "('k \<times> 'v) list \<Rightarrow> 'k \<Rightarrow> 'v option" where
  "mapGet mp k = map_of mp k"

definition mapHas :: "('k \<times> 'v) list \<Rightarrow> 'k \<Rightarrow> bool" where
  "mapHas mp k = (map_of mp k \<noteq> None)"

fun mapSet :: "'k \<Rightarrow> 'v \<Rightarrow> ('k \<times> 'v) list \<Rightarrow> ('k \<times> 'v) list" where
  "mapSet k v [] = [(k, v)]"
| "mapSet k v ((k', v') # mp) = (if k' = k then (k, v) # mp else (k', v') # mapSet k v mp)"

definition setAdd :: "'a \<Rightarrow> 'a list \<Rightarrow> 'a list" where
  "setAdd x xs = (if x \<in> set xs then xs else xs @ [x])"

text \<open>\<^verbatim>\<open>xs.findIndex(P)\<close>: the first index whose element satisfies \<open>P\<close>; \<open>None\<close> for \<open>-1\<close>.\<close>

fun findIndex :: "('a \<Rightarrow> bool) \<Rightarrow> 'a list \<Rightarrow> nat option" where
  "findIndex P [] = None"
| "findIndex P (x # xs) =
     (if P x then Some 0 else (case findIndex P xs of None \<Rightarrow> None | Some i \<Rightarrow> Some (Suc i)))"

text \<open>
  \<^verbatim>\<open>str.split(/\r?\n/)\<close>: the pieces between line feeds, a carriage return right
  before a line feed belonging to the separator.
\<close>

fun splitLines :: "string \<Rightarrow> string list" where
  "splitLines [] = [[]]"
| "splitLines [c] = (if c = CHR 0x0A then [[], []] else [[c]])"
| "splitLines (c # d # cs) =
     (if c = CHR 0x0D \<and> d = CHR 0x0A then [] # splitLines cs
      else if c = CHR 0x0A then [] # splitLines (d # cs)
      else (case splitLines (d # cs) of
              [] \<Rightarrow> [[c]]
            | l # ls \<Rightarrow> (c # l) # ls))"

text \<open>A document written as its lines: the lines joined by line feeds.\<close>

fun joinLines :: "string list \<Rightarrow> string" where
  "joinLines [] = []"
| "joinLines [l] = l"
| "joinLines (l # l' # ls) = l @ CHR 0x0A # joinLines (l' # ls)"

section \<open>The MPS reader: state\<close>

datatype OptimizationDirection = maximize | minimize

text \<open>
  The errors the section readers return, one constructor for each message, with the
  texts the message embeds. \<open>SectionMismatch expected got\<close> has \<open>got = None\<close> for
  \<^verbatim>\<open>end of file\<close>. \<open>JsTypeError\<close> stands for the exception of an assignment into
  the pair of a row that \<^verbatim>\<open>constraints\<close> does not hold.
\<close>

datatype error =
    SectionNotFound
  | SectionMismatch string "string option"
  | MissingRowName
  | DuplicateRow string
  | MissingRowType
  | UnknownRowType string
  | MissingColumnName
  | NonConsecutiveColumn string
  | UnknownMarker string
  | MissingCoefficient
  | UndefinedRow string
  | DuplicateCoefficient string
  | NumberParseError string
  | MissingRHSValue
  | MissingRangeValue
  | MissingBoundValue
  | MissingBoundType
  | UnknownBoundType string
  | UndefinedColumn string
  | SemiContinuousUnsupported
  | JsTypeError

record parseState =
  lines :: "string list"
  index :: nat
  constraintTypes :: "(string \<times> string) list"

record model =
  name :: string
  direction :: OptimizationDirection
  objective :: "string option"
  constraints :: "(string \<times> number \<times> number) list"
  variables :: "(string \<times> (string \<times> number) list) list"
  integers :: "string list"
  binaries :: "string list"
  bounds :: "(string \<times> number \<times> number) list"

section \<open>The section cursor\<close>

definition notSectionEnd :: "string option \<Rightarrow> bool" where
  "notSectionEnd line = (case line of None \<Rightarrow> False | Some l \<Rightarrow> startsWith '' '' l)"

text \<open>The loop of \<^verbatim>\<open>nextLine\<close>: the first index from \<open>i\<close> on whose line is no comment.\<close>

function nextLineFrom :: "string list \<Rightarrow> nat \<Rightarrow> nat option" where
  "nextLineFrom ls i =
     (if i < length ls
      then (if \<not> startsWith ''*'' (ls ! i) then Some i else nextLineFrom ls (Suc i))
      else None)"
  by pat_completeness auto
termination
  by (relation "measure (\<lambda>(ls, i). length ls - i)") auto

declare nextLineFrom.simps [simp del]

definition nextLine :: "parseState \<Rightarrow> string option \<times> parseState" where
  "nextLine s =
     (case nextLineFrom (lines s) (index s + 1) of
        Some i \<Rightarrow> (Some (lines s ! i), s\<lparr>index := i\<rparr>)
      | None \<Rightarrow> (None, s))"

definition readSection :: "parseState \<Rightarrow> string option" where
  "readSection s =
     (if index s < length (lines s) then Some (trimEnd (lines s ! index s)) else None)"

definition sectionErr :: "string \<Rightarrow> string option \<Rightarrow> error" where
  "sectionErr expected section = SectionMismatch expected section"

definition expectSection :: "parseState \<Rightarrow> string \<Rightarrow> error option" where
  "expectSection s section =
     (let nm = readSection s
      in if nm = Some section then None else Some (sectionErr section nm))"

lemma nextLineFrom_bounds:
  "nextLineFrom ls i = Some j \<Longrightarrow> i \<le> j \<and> j < length ls"
proof (induction ls i rule: nextLineFrom.induct)
  case (1 ls i)
  show ?case
  proof (cases "i < length ls \<and> startsWith ''*'' (ls ! i)")
    case True
    with "1.prems" have "nextLineFrom ls (Suc i) = Some j"
      by (subst (asm) nextLineFrom.simps) simp
    with "1.IH" True show ?thesis by fastforce
  next
    case False
    with "1.prems" show ?thesis
      by (subst (asm) nextLineFrom.simps) (auto split: if_splits)
  qed
qed

lemma nextLine_Some:
  "nextLine s = (Some l, s') \<Longrightarrow>
     lines s' = lines s \<and> constraintTypes s' = constraintTypes s \<and>
     index s < index s' \<and> index s' < length (lines s) \<and> l = lines s ! index s'"
  by (auto simp: nextLine_def split: option.splits dest!: nextLineFrom_bounds)

lemma nextLine_None: "nextLine s = (None, s') \<Longrightarrow> s' = s"
  by (auto simp: nextLine_def split: option.splits)

section \<open>BOUNDS\<close>

text \<open>
  \<^verbatim>\<open>setBounds\<close>: the pair of the column is created as \<open>(0, Infinity)\<close> when the
  column has none, then each side is overwritten unless the argument is NaN.
\<close>

definition setBounds :: "model \<Rightarrow> string \<Rightarrow> number \<Rightarrow> number \<Rightarrow> model" where
  "setBounds m nm lower upper =
     (let bs = (if mapHas (bounds m) nm then bounds m
                else mapSet nm (Finite 0, PosInf) (bounds m));
          bnds = (case mapGet bs nm of Some p \<Rightarrow> p | None \<Rightarrow> (Finite 0, PosInf));
          lo = (if \<not> isNaN lower then lower else fst bnds);
          hi = (if \<not> isNaN upper then upper else snd bnds)
      in m\<lparr>bounds := mapSet nm (lo, hi) bs\<rparr>)"

text \<open>The body of the loop of \<^verbatim>\<open>readBounds\<close> for one line.\<close>

definition boundsLine :: "model \<Rightarrow> string \<Rightarrow> error + model" where
  "boundsLine m line =
     (let ty = field1 line; col = field3 line
      in if col = [] then Inl MissingColumnName
         else if \<not> mapHas (variables m) col then Inl (UndefinedColumn col)
         else
           (case (if ty \<in> set [''LO'', ''UP'', ''FX'', ''LI'', ''UI'']
                  then (let v = field4 line
                        in if v = [] then Inl MissingBoundValue
                           else if isNaN (parseFloat v) then Inl (NumberParseError v)
                           else Inr (parseFloat v))
                  else Inr NaN) of
              Inl e \<Rightarrow> Inl e
            | Inr val \<Rightarrow>
                if ty = ''LO'' then Inr (setBounds m col val PosInf)
                else if ty = ''UP'' then Inr (setBounds m col (Finite 0) val)
                else if ty = ''FX'' then Inr (setBounds m col val val)
                else if ty = ''FR'' then Inr (setBounds m col NegInf PosInf)
                else if ty = ''MI'' then Inr (setBounds m col NegInf (Finite 0))
                else if ty = ''PL'' then Inr (setBounds m col (Finite 0) PosInf)
                else if ty = ''BV'' then Inr (m\<lparr>binaries := setAdd col (binaries m)\<rparr>)
                else if ty = ''LI''
                  then Inr (setBounds (m\<lparr>integers := setAdd col (integers m)\<rparr>) col val PosInf)
                else if ty = ''UI''
                  then Inr (setBounds (m\<lparr>integers := setAdd col (integers m)\<rparr>) col (Finite 0) val)
                else if ty = ''SC'' then Inl SemiContinuousUnsupported
                else if ty = [] then Inl MissingBoundType
                else Inl (UnknownBoundType ty)))"

function readBoundsLoop ::
  "parseState \<Rightarrow> model \<Rightarrow> string option \<Rightarrow> error option \<times> parseState \<times> model" where
  "readBoundsLoop s m None = (None, s, m)"
| "readBoundsLoop s m (Some l) =
     (if notSectionEnd (Some l) then
        (case boundsLine m l of
           Inl e \<Rightarrow> (Some e, s, m)
         | Inr m' \<Rightarrow> (case nextLine s of (line', s') \<Rightarrow> readBoundsLoop s' m' line'))
      else (None, s, m))"
  by pat_completeness auto
termination
  by (relation "measure (\<lambda>(s, m, line).
          case line of None \<Rightarrow> 0 | Some _ \<Rightarrow> Suc (length (lines s) - index s))")
     (auto split: option.splits dest!: nextLine_Some sym [of _ "nextLine _"])

definition readBounds :: "parseState \<Rightarrow> model \<Rightarrow> error option \<times> parseState \<times> model" where
  "readBounds s m =
     (case nextLine s of
        (line, s1) \<Rightarrow>
          (case readBoundsLoop s1 m line of
             (Some e, s2, m2) \<Rightarrow> (Some e, s2, m2)
           | (None, s2, m2) \<Rightarrow> (expectSection s2 ''ENDATA'', s2, m2)))"

section \<open>RANGES\<close>

definition addRange :: "parseState \<Rightarrow> model \<Rightarrow> string \<Rightarrow> string \<Rightarrow> error + model" where
  "addRange s m row v =
     (if row = [] then Inl MissingRowName
      else if v = [] then Inl MissingRangeValue
      else
        (case mapGet (constraintTypes s) row of
           None \<Rightarrow> Inl (UndefinedRow row)
         | Some ty \<Rightarrow>
             let val = parseFloat v
             in if isNaN val then Inl (NumberParseError v)
                else
                  let setLo = (ty = ''L'' \<or> (ty = ''E'' \<and> numLess val (Finite 0)));
                      setHi = (ty = ''G'' \<or> (ty = ''E'' \<and> numLess (Finite 0) val))
                  in (case mapGet (constraints m) row of
                        None \<Rightarrow> if setLo \<or> setHi then Inl JsTypeError else Inr m
                      | Some (b0, b1) \<Rightarrow>
                          let b0' = (if setLo then numSub b1 (numAbs val) else b0);
                              b1' = (if setHi then numAdd b0' (numAbs val) else b1)
                          in Inr (m\<lparr>constraints := mapSet row (b0', b1') (constraints m)\<rparr>))))"

text \<open>The body of the loop of \<^verbatim>\<open>readRanges\<close> for one line.\<close>

definition rangesLine :: "parseState \<Rightarrow> model \<Rightarrow> string \<Rightarrow> error + model" where
  "rangesLine s m line =
     (case addRange s m (field3 line) (field4 line) of
        Inl err1 \<Rightarrow> Inl err1
      | Inr m1 \<Rightarrow>
          let name2 = field5 line; value2 = field6 line
          in if name2 \<noteq> [] \<or> value2 \<noteq> [] then addRange s m1 name2 value2 else Inr m1)"

function readRangesLoop ::
  "parseState \<Rightarrow> model \<Rightarrow> string option \<Rightarrow> error option \<times> parseState \<times> model" where
  "readRangesLoop s m None = (None, s, m)"
| "readRangesLoop s m (Some l) =
     (if notSectionEnd (Some l) then
        (case rangesLine s m l of
           Inl e \<Rightarrow> (Some e, s, m)
         | Inr m' \<Rightarrow> (case nextLine s of (line', s') \<Rightarrow> readRangesLoop s' m' line'))
      else (None, s, m))"
  by pat_completeness auto
termination
  by (relation "measure (\<lambda>(s, m, line).
          case line of None \<Rightarrow> 0 | Some _ \<Rightarrow> Suc (length (lines s) - index s))")
     (auto split: option.splits dest!: nextLine_Some sym [of _ "nextLine _"])

definition readRanges :: "parseState \<Rightarrow> model \<Rightarrow> error option \<times> parseState \<times> model" where
  "readRanges s m =
     (case nextLine s of
        (line, s1) \<Rightarrow>
          (case readRangesLoop s1 m line of
             (Some e, s2, m2) \<Rightarrow> (Some e, s2, m2)
           | (None, s2, m2) \<Rightarrow>
               let section = readSection s2
               in if section = Some ''BOUNDS'' then readBounds s2 m2
                  else if section = Some ''ENDATA'' then (None, s2, m2)
                  else (Some (sectionErr ''BOUNDS or ENDATA'' section), s2, m2)))"

section \<open>RHS\<close>

definition addConstraint :: "parseState \<Rightarrow> model \<Rightarrow> string \<Rightarrow> string \<Rightarrow> error + model" where
  "addConstraint s m row v =
     (if row = [] then Inl MissingRowName
      else if v = [] then Inl MissingRHSValue
      else
        (case mapGet (constraintTypes s) row of
           None \<Rightarrow> Inl (UndefinedRow row)
         | Some ty \<Rightarrow>
             let val = parseFloat v
             in if isNaN val then Inl (NumberParseError v)
                else
                  let setHi = (ty = ''L'' \<or> ty = ''E'');
                      setLo = (ty = ''G'' \<or> ty = ''E'')
                  in (case mapGet (constraints m) row of
                        None \<Rightarrow> if setHi \<or> setLo then Inl JsTypeError else Inr m
                      | Some (c0, c1) \<Rightarrow>
                          Inr (m\<lparr>constraints :=
                                   mapSet row (if setLo then val else c0, if setHi then val else c1)
                                     (constraints m)\<rparr>))))"

text \<open>The body of the loop of \<^verbatim>\<open>readRHS\<close> for one line.\<close>

definition rhsLine :: "parseState \<Rightarrow> model \<Rightarrow> string \<Rightarrow> error + model" where
  "rhsLine s m line =
     (case addConstraint s m (field3 line) (field4 line) of
        Inl err1 \<Rightarrow> Inl err1
      | Inr m1 \<Rightarrow>
          let name2 = field5 line; value2 = field6 line
          in if name2 \<noteq> [] \<or> value2 \<noteq> [] then addConstraint s m1 name2 value2 else Inr m1)"

function readRHSLoop ::
  "parseState \<Rightarrow> model \<Rightarrow> string option \<Rightarrow> error option \<times> parseState \<times> model" where
  "readRHSLoop s m None = (None, s, m)"
| "readRHSLoop s m (Some l) =
     (if notSectionEnd (Some l) then
        (case rhsLine s m l of
           Inl e \<Rightarrow> (Some e, s, m)
         | Inr m' \<Rightarrow> (case nextLine s of (line', s') \<Rightarrow> readRHSLoop s' m' line'))
      else (None, s, m))"
  by pat_completeness auto
termination
  by (relation "measure (\<lambda>(s, m, line).
          case line of None \<Rightarrow> 0 | Some _ \<Rightarrow> Suc (length (lines s) - index s))")
     (auto split: option.splits dest!: nextLine_Some sym [of _ "nextLine _"])

definition readRHS :: "parseState \<Rightarrow> model \<Rightarrow> error option \<times> parseState \<times> model" where
  "readRHS s m =
     (case expectSection s ''RHS'' of
        Some e \<Rightarrow> (Some e, s, m)
      | None \<Rightarrow>
          (case nextLine s of
             (line, s1) \<Rightarrow>
               (case readRHSLoop s1 m line of
                  (Some e, s2, m2) \<Rightarrow> (Some e, s2, m2)
                | (None, s2, m2) \<Rightarrow>
                    let section = readSection s2
                    in if section = Some ''RANGES'' then readRanges s2 m2
                       else if section = Some ''BOUNDS'' then readBounds s2 m2
                       else if section = Some ''ENDATA'' then (None, s2, m2)
                       else (Some (sectionErr ''RANGES, BOUNDS, or ENDATA'' section), s2, m2))))"

section \<open>COLUMNS\<close>

definition addCoefficient ::
  "parseState \<Rightarrow> (string \<times> number) list \<Rightarrow> string \<Rightarrow> string \<Rightarrow> error + (string \<times> number) list" where
  "addCoefficient s variable row v =
     (if row = [] then Inl MissingRowName
      else if v = [] then Inl MissingCoefficient
      else if \<not> mapHas (constraintTypes s) row then Inl (UndefinedRow row)
      else if mapHas variable row then Inl (DuplicateCoefficient row)
      else
        let val = parseFloat v
        in if isNaN val then Inl (NumberParseError v)
           else Inr (mapSet row val variable))"

text \<open>
  The body of the \<^verbatim>\<open>do ... while\<close> loop of \<^verbatim>\<open>readColumns\<close> for one line, up to
  the step to the next line.
\<close>

definition columnLine ::
  "parseState \<Rightarrow> (string \<times> number) list \<Rightarrow> string \<Rightarrow> error + (string \<times> number) list" where
  "columnLine s variable line =
     (case addCoefficient s variable (field3 line) (field4 line) of
        Inl err1 \<Rightarrow> Inl err1
      | Inr variable1 \<Rightarrow>
          let name2 = field5 line; value2 = field6 line
          in if name2 \<noteq> [] \<or> value2 \<noteq> [] then addCoefficient s variable1 name2 value2
             else Inr variable1)"

text \<open>
  The \<^verbatim>\<open>do ... while\<close> loop: the lines of one column, from the line \<open>l\<close> on. It
  returns the error if there is one, the coefficients read, the line the cursor is at
  after the column, and the state.
\<close>

function columnBlock ::
  "parseState \<Rightarrow> (string \<times> number) list \<Rightarrow> string \<Rightarrow> string \<Rightarrow>
     error option \<times> (string \<times> number) list \<times> string option \<times> parseState" where
  "columnBlock s variable cname l =
     (case columnLine s variable l of
        Inl e \<Rightarrow> (Some e, variable, Some l, s)
      | Inr variable' \<Rightarrow>
          (case nextLine s of
             (None, s') \<Rightarrow> (None, variable', None, s')
           | (Some l', s') \<Rightarrow>
               if notSectionEnd (Some l') \<and> field2 l' = cname
               then columnBlock s' variable' cname l'
               else (None, variable', Some l', s')))"
  by pat_completeness auto
termination
  by (relation "measure (\<lambda>(s, variable, cname, l). length (lines s) - index s)")
     (auto dest!: nextLine_Some sym [of _ "nextLine _"])

declare columnBlock.simps [simp del]

lemma columnBlock_advances:
  "columnBlock s variable cname l = (None, variable', Some l', s') \<Longrightarrow>
     lines s' = lines s \<and> index s < index s' \<and> index s' < length (lines s)"
proof (induction s variable cname l rule: columnBlock.induct)
  case (1 s variable cname l)
  from "1.prems" obtain v1 where v1: "columnLine s variable l = Inr v1"
    by (subst (asm) columnBlock.simps) (auto split: sum.splits)
  obtain ln s1 where n: "nextLine s = (ln, s1)"
    by (cases "nextLine s")
  from "1.prems" v1 n obtain l1 where ln: "ln = Some l1"
    by (subst (asm) columnBlock.simps) (auto split: option.splits)
  from n ln have adv: "lines s1 = lines s" "index s < index s1" "index s1 < length (lines s)"
    using nextLine_Some by blast+
  show ?case
  proof (cases "notSectionEnd (Some l1) \<and> field2 l1 = cname")
    case True
    with "1.prems" v1 n ln
    have "columnBlock s1 v1 cname l1 = (None, variable', Some l', s')"
      by (subst (asm) columnBlock.simps) simp
    with "1.IH" [OF v1 n [symmetric]] ln True
    have "lines s' = lines s1 \<and> index s1 < index s' \<and> index s' < length (lines s1)"
      by simp
    with adv show ?thesis by simp
  next
    case False
    with "1.prems" v1 n ln have "s' = s1"
      by (subst (asm) columnBlock.simps) (auto split: if_splits)
    with adv show ?thesis by simp
  qed
qed

text \<open>The marker texts carry their apostrophes.\<close>

definition MARKER :: string where
  "MARKER = CHR 0x27 # ''MARKER'' @ [CHR 0x27]"

definition INTORG :: string where
  "INTORG = CHR 0x27 # ''INTORG'' @ [CHR 0x27]"

definition INTEND :: string where
  "INTEND = CHR 0x27 # ''INTEND'' @ [CHR 0x27]"

text \<open>The \<^verbatim>\<open>while\<close> loop of \<^verbatim>\<open>readColumns\<close>, at the line the cursor is at.\<close>

function readColumnsLoop ::
  "parseState \<Rightarrow> model \<Rightarrow> bool \<Rightarrow> string option \<Rightarrow> error option \<times> parseState \<times> model" where
  "readColumnsLoop s m integerMarked None = (None, s, m)"
| "readColumnsLoop s m integerMarked (Some l) =
     (if notSectionEnd (Some l) then
        (if field3 l = MARKER then
           (let marker = field4 l
            in if marker = INTORG
                 then (case nextLine s of (line', s') \<Rightarrow> readColumnsLoop s' m True line')
               else if marker = INTEND
                 then (case nextLine s of (line', s') \<Rightarrow> readColumnsLoop s' m False line')
               else (Some (UnknownMarker marker), s, m))
         else
           (let cname = field2 l
            in if cname = [] then (Some MissingColumnName, s, m)
               else if mapHas (variables m) cname then (Some (NonConsecutiveColumn cname), s, m)
               else
                 (case columnBlock s [] cname l of
                    (Some e, variable, line', s') \<Rightarrow> (Some e, s', m)
                  | (None, variable, line', s') \<Rightarrow>
                      readColumnsLoop s'
                        (m\<lparr>variables := mapSet cname variable (variables m),
                           integers := (if integerMarked then setAdd cname (integers m)
                                        else integers m)\<rparr>)
                        integerMarked line')))
      else (None, s, m))"
  by pat_completeness auto
termination
  by (relation "measure (\<lambda>(s, m, integerMarked, line).
          case line of None \<Rightarrow> 0 | Some _ \<Rightarrow> Suc (length (lines s) - index s))")
     (auto split: option.splits
           dest!: nextLine_Some columnBlock_advances
                  sym [of _ "nextLine _"] sym [of _ "columnBlock _ _ _ _"])

definition readColumns :: "parseState \<Rightarrow> model \<Rightarrow> error option \<times> parseState \<times> model" where
  "readColumns s m =
     (case expectSection s ''COLUMNS'' of
        Some e \<Rightarrow> (Some e, s, m)
      | None \<Rightarrow>
          (case nextLine s of
             (line, s1) \<Rightarrow>
               (case readColumnsLoop s1 m False line of
                  (Some e, s2, m2) \<Rightarrow> (Some e, s2, m2)
                | (None, s2, m2) \<Rightarrow> readRHS s2 m2)))"

section \<open>ROWS\<close>

text \<open>The body of the loop of \<^verbatim>\<open>readRows\<close> for one line.\<close>

definition rowsLine :: "parseState \<Rightarrow> model \<Rightarrow> string \<Rightarrow> error + parseState \<times> model" where
  "rowsLine s m line =
     (let rname = field2 line
      in if rname = [] then Inl MissingRowName
         else if mapHas (constraintTypes s) rname then Inl (DuplicateRow rname)
         else
           (let ty = field1 line;
                s' = s\<lparr>constraintTypes := mapSet rname ty (constraintTypes s)\<rparr>
            in if ty = ''L''
                 then Inr (s', m\<lparr>constraints := mapSet rname (NegInf, Finite 0) (constraints m)\<rparr>)
               else if ty = ''G''
                 then Inr (s', m\<lparr>constraints := mapSet rname (Finite 0, PosInf) (constraints m)\<rparr>)
               else if ty = ''E''
                 then Inr (s', m\<lparr>constraints := mapSet rname (Finite 0, Finite 0) (constraints m)\<rparr>)
               else if ty = ''N''
                 then Inr (s', m\<lparr>objective := (case objective m of None \<Rightarrow> Some rname
                                                                   | Some ob \<Rightarrow> Some ob),
                                  constraints := mapSet rname (NegInf, PosInf) (constraints m)\<rparr>)
               else if ty = [] then Inl MissingRowType
               else Inl (UnknownRowType ty)))"

function readRowsLoop ::
  "parseState \<Rightarrow> model \<Rightarrow> string option \<Rightarrow> error option \<times> parseState \<times> model" where
  "readRowsLoop s m None = (None, s, m)"
| "readRowsLoop s m (Some l) =
     (if notSectionEnd (Some l) then
        (case rowsLine s m l of
           Inl e \<Rightarrow> (Some e, s, m)
         | Inr (s1, m') \<Rightarrow> (case nextLine s1 of (line', s') \<Rightarrow> readRowsLoop s' m' line'))
      else (None, s, m))"
  by pat_completeness auto

lemma rowsLine_cursor:
  "rowsLine s m l = Inr (s1, m') \<Longrightarrow> lines s1 = lines s \<and> index s1 = index s"
  by (auto simp: rowsLine_def Let_def split: if_splits)

termination readRowsLoop
  by (relation "measure (\<lambda>(s, m, line).
          case line of None \<Rightarrow> 0 | Some _ \<Rightarrow> Suc (length (lines s) - index s))")
     (auto split: option.splits dest!: nextLine_Some rowsLine_cursor sym [of _ "nextLine _"])

definition readRows :: "parseState \<Rightarrow> model \<Rightarrow> error option \<times> parseState \<times> model" where
  "readRows s m =
     (case expectSection s ''ROWS'' of
        Some e \<Rightarrow> (Some e, s, m)
      | None \<Rightarrow>
          (case nextLine s of
             (line, s1) \<Rightarrow>
               (case readRowsLoop s1 m line of
                  (Some e, s2, m2) \<Rightarrow> (Some e, s2, m2)
                | (None, s2, m2) \<Rightarrow> readColumns s2 m2)))"

section \<open>NAME and the whole reader\<close>

definition readName :: "parseState \<Rightarrow> model \<Rightarrow> error option \<times> parseState \<times> model" where
  "readName s m =
     (case findIndex (startsWith ''NAME'') (lines s) of
        None \<Rightarrow> (Some SectionNotFound, s, m)
      | Some i \<Rightarrow> readRows (s\<lparr>index := i + 1\<rparr>) (m\<lparr>name := field3 (lines s ! i)\<rparr>))"

text \<open>
  \<^verbatim>\<open>modelFromMps\<close> returns the model, or throws an error whose message starts with
  the line number \<^verbatim>\<open>parseState.index + 1\<close>: here \<open>Inl\<close> of that number and the error.
\<close>

definition modelFromMps :: "string \<Rightarrow> OptimizationDirection \<Rightarrow> nat \<times> error + model" where
  "modelFromMps mps dir =
     (let parseState = \<lparr>lines = splitLines mps, index = 0, constraintTypes = []\<rparr>;
          mdl = \<lparr>name = [], direction = dir, objective = None, constraints = [],
                 variables = [], integers = [], binaries = [], bounds = []\<rparr>
      in case readName parseState mdl of
           (Some e, s', m') \<Rightarrow> Inl (index s' + 1, e)
         | (None, s', m') \<Rightarrow> Inr m')"

section \<open>Notions used in the statements\<close>

text \<open>
  The two definitions of this section are not functions of the source. The first says
  that every line strictly between the positions \<open>i\<close> and \<open>j\<close> is a comment line.
\<close>

definition onlyComments :: "string list \<Rightarrow> nat \<Rightarrow> nat \<Rightarrow> bool" where
  "onlyComments ls i j = list_all (\<lambda>t. startsWith ''*'' (ls ! t)) [Suc i..<j]"

text \<open>
  The second is the state and the model with which \<^verbatim>\<open>readRows\<close> calls
  \<^verbatim>\<open>readColumns\<close> on a document, \<open>None\<close> when the reader fails before that call. It
  repeats the steps that \<^verbatim>\<open>modelFromMps\<close>, \<^verbatim>\<open>readName\<close> and \<^verbatim>\<open>readRows\<close>
  take up to there, so that a statement about the COLUMNS section can be made of whole
  documents.
\<close>

definition columnsEntry :: "string \<Rightarrow> OptimizationDirection \<Rightarrow> (parseState \<times> model) option" where
  "columnsEntry mps dir =
     (let parseState = \<lparr>lines = splitLines mps, index = 0, constraintTypes = []\<rparr>;
          mdl = \<lparr>name = [], direction = dir, objective = None, constraints = [],
                 variables = [], integers = [], binaries = [], bounds = []\<rparr>
      in case findIndex (startsWith ''NAME'') (lines parseState) of
           None \<Rightarrow> None
         | Some i \<Rightarrow>
             (let s0 = parseState\<lparr>index := i + 1\<rparr>;
                  m0 = mdl\<lparr>name := field3 (lines parseState ! i)\<rparr>
              in case expectSection s0 ''ROWS'' of
                   Some e \<Rightarrow> None
                 | None \<Rightarrow>
                     (case nextLine s0 of
                        (line, s1) \<Rightarrow>
                          (case readRowsLoop s1 m0 line of
                             (Some e, s2, m2) \<Rightarrow> None
                           | (None, s2, m2) \<Rightarrow> Some (s2, m2)))))"

section \<open>Documents and lines used in the statements\<close>

text \<open>
  The documents are written as their lines, each field at the character positions the
  field extractors read.
\<close>

definition minimalDocument :: string where
  "minimalDocument = joinLines
     [''NAME          test'',
      ''ROWS'',
      '' N  COST'',
      '' L  LIM1'',
      ''COLUMNS'',
      ''    X         COST      1.0            LIM1      1.0'',
      ''RHS'',
      ''    RHS       LIM1      10.0'',
      ''ENDATA'']"

definition upperOnlyDocument :: string where
  "upperOnlyDocument = joinLines
     [''NAME          test'',
      ''ROWS'',
      '' N  COST'',
      '' L  LIM1'',
      ''COLUMNS'',
      ''    X         COST      1.0            LIM1      1.0'',
      ''RHS'',
      ''    RHS       LIM1      10.0'',
      ''BOUNDS'',
      '' UP BND       X         -5.0'',
      ''ENDATA'']"

definition lowerThenUpperDocument :: string where
  "lowerThenUpperDocument = joinLines
     [''NAME          test'',
      ''ROWS'',
      '' N  COST'',
      '' L  LIM1'',
      ''COLUMNS'',
      ''    X         COST      1.0            LIM1      1.0'',
      ''RHS'',
      ''    RHS       LIM1      10.0'',
      ''BOUNDS'',
      '' LO BND       X         5.0'',
      '' UP BND       X         10.0'',
      ''ENDATA'']"

definition upperThenLowerDocument :: string where
  "upperThenLowerDocument = joinLines
     [''NAME          test'',
      ''ROWS'',
      '' N  COST'',
      '' L  LIM1'',
      ''COLUMNS'',
      ''    X         COST      1.0            LIM1      1.0'',
      ''RHS'',
      ''    RHS       LIM1      10.0'',
      ''BOUNDS'',
      '' UP BND       X         10.0'',
      '' LO BND       X         5.0'',
      ''ENDATA'']"

definition commentAfterNameDocument :: string where
  "commentAfterNameDocument = joinLines
     [''NAME          test'',
      ''* a comment'',
      ''ROWS'',
      '' N  COST'',
      '' L  LIM1'',
      ''COLUMNS'',
      ''    X         COST      1.0            LIM1      1.0'',
      ''RHS'',
      ''    RHS       LIM1      10.0'',
      ''ENDATA'']"

definition commentsElsewhereDocument :: string where
  "commentsElsewhereDocument = joinLines
     [''* a comment'',
      ''NAME          test'',
      ''ROWS'',
      ''* a comment'',
      '' N  COST'',
      ''* a comment'',
      '' L  LIM1'',
      ''* a comment'',
      ''COLUMNS'',
      ''* a comment'',
      ''    X         COST      1.0            LIM1      1.0'',
      ''* a comment'',
      ''RHS'',
      ''* a comment'',
      ''    RHS       LIM1      10.0'',
      ''* a comment'',
      ''ENDATA'',
      ''* a comment'']"

definition nonConsecutiveDocument :: string where
  "nonConsecutiveDocument = joinLines
     [''NAME          test'',
      ''ROWS'',
      '' N  COST'',
      '' L  LIM1'',
      '' L  LIM2'',
      ''COLUMNS'',
      ''    X         COST      1.0'',
      ''    X         LIM1      1.0'',
      ''    Y         COST      2.0'',
      ''    X         LIM2      3.0'',
      ''RHS'',
      ''    RHS       LIM1      10.0'',
      ''ENDATA'']"

definition halfPairCoefficientDocument :: string where
  "halfPairCoefficientDocument = joinLines
     [''NAME          test'',
      ''ROWS'',
      '' N  COST'',
      '' L  LIM1'',
      ''COLUMNS'',
      ''    X         COST      1.0            LIM1'',
      ''RHS'',
      ''    RHS       LIM1      10.0'',
      ''ENDATA'']"

definition halfPairRowDocument :: string where
  "halfPairRowDocument = joinLines
     [''NAME          test'',
      ''ROWS'',
      '' N  COST'',
      '' L  LIM1'',
      ''COLUMNS'',
      ''    X         COST      1.0                      1.0'',
      ''RHS'',
      ''    RHS       LIM1      10.0'',
      ''ENDATA'']"

definition rangeUpDocument :: string where
  "rangeUpDocument = joinLines
     [''NAME          test'',
      ''ROWS'',
      '' N  COST'',
      '' E  EQ1'',
      ''COLUMNS'',
      ''    X         COST      1.0            EQ1       1.0'',
      ''RHS'',
      ''    RHS       EQ1       10.0'',
      ''RANGES'',
      ''    RNG       EQ1       4'',
      ''ENDATA'']"

definition rangeDownDocument :: string where
  "rangeDownDocument = joinLines
     [''NAME          test'',
      ''ROWS'',
      '' N  COST'',
      '' E  EQ1'',
      ''COLUMNS'',
      ''    X         COST      1.0            EQ1       1.0'',
      ''RHS'',
      ''    RHS       EQ1       10.0'',
      ''RANGES'',
      ''    RNG       EQ1       -4'',
      ''ENDATA'']"

text \<open>The state and the model after a ROWS section declaring \<open>N COST\<close> and \<open>E EQ1\<close>.\<close>

definition equalityRowState :: parseState where
  "equalityRowState =
     \<lparr>lines = [], index = 0, constraintTypes = [(''COST'', ''N''), (''EQ1'', ''E'')]\<rparr>"

definition equalityRowModel :: model where
  "equalityRowModel =
     \<lparr>name = ''test'', direction = minimize, objective = Some ''COST'',
      constraints = [(''COST'', NegInf, PosInf), (''EQ1'', Finite 0, Finite 0)],
      variables = [], integers = [], binaries = [], bounds = []\<rparr>"

text \<open>The state after a ROWS section declaring \<open>N COST\<close> and \<open>L LIM1\<close>.\<close>

definition rowsState :: parseState where
  "rowsState =
     \<lparr>lines = [], index = 0, constraintTypes = [(''COST'', ''N''), (''LIM1'', ''L'')]\<rparr>"

text \<open>
  A document with three columns and a BOUNDS section in which the only entry for \<open>X\<close>
  is \<open>UP -5.0\<close>, at position 13; then the state and the model with which
  \<^verbatim>\<open>readBounds\<close> is called on it, the cursor at the BOUNDS header.
\<close>

definition boundsSectionLines :: "string list" where
  "boundsSectionLines =
     [''NAME          test'',
      ''ROWS'',
      '' N  COST'',
      '' L  LIM1'',
      ''COLUMNS'',
      ''    X         COST      1.0            LIM1      1.0'',
      ''    Y         COST      2.0            LIM1      1.0'',
      ''    Z         COST      3.0'',
      ''RHS'',
      ''    RHS       LIM1      10.0'',
      ''BOUNDS'',
      '' LO BND       Y         1.0'',
      ''* the only entry for X'',
      '' UP BND       X         -5.0'',
      '' FX BND       Z         2.0'',
      ''ENDATA'']"

definition boundsSectionState :: parseState where
  "boundsSectionState =
     \<lparr>lines = boundsSectionLines, index = 10,
      constraintTypes = [(''COST'', ''N''), (''LIM1'', ''L'')]\<rparr>"

definition boundsSectionModel :: model where
  "boundsSectionModel =
     \<lparr>name = ''test'', direction = minimize, objective = Some ''COST'',
      constraints = [(''COST'', NegInf, PosInf), (''LIM1'', NegInf, Finite 10)],
      variables = [(''X'', [(''COST'', Finite 1), (''LIM1'', Finite 1)]),
                   (''Y'', [(''COST'', Finite 2), (''LIM1'', Finite 1)]),
                   (''Z'', [(''COST'', Finite 3)])],
      integers = [], binaries = [], bounds = []\<rparr>"

text \<open>
  A document with comment lines whose COLUMNS section has lines for \<open>X\<close> at the
  positions 8 and 9, a line for \<open>Y\<close> at 11 and another line for \<open>X\<close> at 12; then the
  state and the model with which \<^verbatim>\<open>readColumns\<close> is called on it.
\<close>

definition commentedColumnsLines :: "string list" where
  "commentedColumnsLines =
     [''NAME          test'',
      ''ROWS'',
      ''* the rows'',
      '' N  COST'',
      '' L  LIM1'',
      '' L  LIM2'',
      ''COLUMNS'',
      ''* the first column'',
      ''    X         COST      1.0'',
      ''    X         LIM1      1.0'',
      ''* the second column'',
      ''    Y         COST      2.0'',
      ''    X         LIM2      3.0'',
      ''RHS'',
      ''    RHS       LIM1      10.0'',
      ''ENDATA'']"

definition commentedColumnsState :: parseState where
  "commentedColumnsState =
     \<lparr>lines = commentedColumnsLines, index = 6,
      constraintTypes = [(''COST'', ''N''), (''LIM1'', ''L''), (''LIM2'', ''L'')]\<rparr>"

definition commentedColumnsModel :: model where
  "commentedColumnsModel =
     \<lparr>name = ''test'', direction = minimize, objective = Some ''COST'',
      constraints = [(''COST'', NegInf, PosInf), (''LIM1'', NegInf, Finite 0),
                     (''LIM2'', NegInf, Finite 0)],
      variables = [], integers = [], binaries = [], bounds = []\<rparr>"

text \<open>
  Two documents with a half second pair on a line of the COLUMNS section: on a line
  whose first pair names a row that was not declared, and on a marker line.
\<close>

definition undefinedRowHalfPairLine :: string where
  "undefinedRowHalfPairLine = ''    X         NOPE      1.0            LIM1''"

definition undefinedRowHalfPairDocument :: string where
  "undefinedRowHalfPairDocument = joinLines
     [''NAME          test'',
      ''ROWS'',
      '' N  COST'',
      '' L  LIM1'',
      ''COLUMNS'',
      undefinedRowHalfPairLine,
      ''RHS'',
      ''    RHS       LIM1      10.0'',
      ''ENDATA'']"

definition markerHalfPairLine :: string where
  "markerHalfPairLine = ''    M1        'MARKER'  'INTORG'       LIM1''"

definition markerHalfPairDocument :: string where
  "markerHalfPairDocument = joinLines
     [''NAME          test'',
      ''ROWS'',
      '' N  COST'',
      '' L  LIM1'',
      ''COLUMNS'',
      markerHalfPairLine,
      ''    X         COST      1.0            LIM1      1.0'',
      ''RHS'',
      ''    RHS       LIM1      10.0'',
      ''ENDATA'']"

text \<open>A line of seventy characters whose character at position \<open>i\<close> is the digit \<open>i mod 10\<close>.\<close>

definition rulerLine :: string where
  "rulerLine = ''0123456789012345678901234567890123456789012345678901234567890123456789''"

definition reportHeader :: string where
  "reportHeader = ''Index Lower Upper Primal Dual''"

section \<open>Auxiliary facts\<close>

lemma filter_lt_upt: "filter (\<lambda>i. i < n) [a..<b] = [a..<min b n]"
  by (induction b) auto

lemma map_nth_upt_take_drop:
  "j \<le> length s \<Longrightarrow> map (\<lambda>i. s ! i) [i..<j] = take (j - i) (drop i s)"
  by (auto simp: list_eq_iff_nth_eq)

lemma substring_charRange: "a \<le> b \<Longrightarrow> substring a b s = charRange a b s"
  unfolding substring_def charRange_def Let_def filter_lt_upt
  by (subst map_nth_upt_take_drop) (auto simp: min_def max_def)

lemma minimalDocument_model:
  "modelFromMps minimalDocument dir =
     Inr \<lparr>name = ''test'', direction = dir, objective = Some ''COST'',
          constraints = [(''COST'', NegInf, PosInf), (''LIM1'', NegInf, Finite 10)],
          variables = [(''X'', [(''COST'', Finite 1), (''LIM1'', Finite 1)])],
          integers = [], binaries = [], bounds = []\<rparr>"
  unfolding minimalDocument_def by code_simp

lemma matchAll_reportHeader:
  "matchAll reportHeader =
     [(0, ''Index''), (6, ''Lower''), (12, ''Upper''), (18, ''Primal''), (25, ''Dual'')]"
  unfolding reportHeader_def by code_simp

lemma headers_reportHeader:
  "headersForNonEmptyColumns reportHeader d =
     (if charAt d 0 \<noteq> Some CHR '' '' \<or> charAt d 4 \<noteq> Some CHR '' '' then [''Index''] else []) @
     (if charAt d 6 \<noteq> Some CHR '' '' \<or> charAt d 10 \<noteq> Some CHR '' '' then [''Lower''] else []) @
     (if charAt d 12 \<noteq> Some CHR '' '' \<or> charAt d 16 \<noteq> Some CHR '' '' then [''Upper''] else []) @
     (if charAt d 18 \<noteq> Some CHR '' '' \<or> charAt d 23 \<noteq> Some CHR '' '' then [''Primal''] else []) @
     (if charAt d 25 \<noteq> Some CHR '' '' \<or> charAt d 28 \<noteq> Some CHR '' '' then [''Dual''] else [])"
proof -
  have ends: "0 + length ''Index'' - 1 = (4::nat)" "6 + length ''Lower'' - 1 = (10::nat)"
    "12 + length ''Upper'' - 1 = (16::nat)" "18 + length ''Primal'' - 1 = (23::nat)"
    "25 + length ''Dual'' - 1 = (28::nat)"
    by simp_all
  show ?thesis
    unfolding headersForNonEmptyColumns_def matchAll_reportHeader filter.simps list.map
      prod.case snd_conv ends
    by (simp only: if_distrib [of "map snd"] list.map snd_conv append_Cons append_Nil
          split: if_splits) simp
qed

lemma mapGet_mapSet_same: "mapGet (mapSet k v mp) k = Some v"
  by (induction mp) (auto simp: mapGet_def)

lemma matchAllFrom_token:
  "(i, tok) \<in> set (matchAllFrom k s) \<Longrightarrow>
     k \<le> i \<and> tok \<noteq> [] \<and> (\<forall>c \<in> set tok. \<not> isSpace c) \<and>
     take (length tok) (drop (i - k) s) = tok"
proof (induction k s rule: matchAllFrom.induct)
  case (1 k)
  then show ?case by simp
next
  case (2 k c cs)
  let ?tw = "takeWhile (\<lambda>x. \<not> isSpace x) cs"
  let ?dw = "dropWhile (\<lambda>x. \<not> isSpace x) cs"
  show ?case
  proof (cases "isSpace c")
    case True
    with "2.prems" have "(i, tok) \<in> set (matchAllFrom (Suc k) cs)"
      by simp
    with "2.IH"(1) True
    have ih: "Suc k \<le> i" "tok \<noteq> []" "\<forall>c \<in> set tok. \<not> isSpace c"
      "take (length tok) (drop (i - Suc k) cs) = tok"
      by blast+
    from ih(1) have "i - k = Suc (i - Suc k)"
      by simp
    with ih show ?thesis
      by simp
  next
    case False
    with "2.prems" consider
        (here) "i = k" "tok = c # ?tw"
      | (later) "(i, tok) \<in> set (matchAllFrom (Suc k + length ?tw) ?dw)"
      by auto
    then show ?thesis
    proof cases
      case here
      have "take (length ?tw) cs = ?tw"
        by (metis append_eq_conv_conj takeWhile_dropWhile_id)
      with here False show ?thesis
        by (auto dest: set_takeWhileD)
    next
      case later
      with "2.IH"(2) False
      have ih: "Suc k + length ?tw \<le> i" "tok \<noteq> []" "\<forall>c \<in> set tok. \<not> isSpace c"
        "take (length tok) (drop (i - (Suc k + length ?tw)) ?dw) = tok"
        by blast+
      have "drop (i - (Suc k + length ?tw)) ?dw = drop (i - Suc k) cs"
        using ih(1) by (simp add: dropWhile_eq_drop)
      moreover from ih(1) have "i - k = Suc (i - Suc k)"
        by simp
      ultimately show ?thesis
        using ih by simp
    qed
  qed
qed

lemma matchAll_token:
  "(i, tok) \<in> set (matchAll s) \<Longrightarrow>
     tok \<noteq> [] \<and> (\<forall>c \<in> set tok. \<not> isSpace c) \<and> take (length tok) (drop i s) = tok"
  using matchAllFrom_token [of i tok 0 s] by (simp add: matchAll_def)

lemma boundsLine_LO:
  assumes "field1 l = ''LO''" and "field3 l \<noteq> []" and "mapHas (variables m) (field3 l)"
    and "parseFloat (field4 l) = Finite v"
  shows "\<exists>m'. boundsLine m l = Inr m' \<and>
              mapGet (bounds m') (field3 l) = Some (Finite v, PosInf)"
proof -
  from assms(4) have "field4 l \<noteq> []"
    by (auto simp: parseFloat_def trimStart_def)
  with assms show ?thesis
    by (simp add: boundsLine_def setBounds_def Let_def mapGet_mapSet_same)
qed

lemma boundsLine_UP:
  assumes "field1 l = ''UP''" and "field3 l \<noteq> []" and "mapHas (variables m) (field3 l)"
    and "parseFloat (field4 l) = Finite v"
  shows "\<exists>m'. boundsLine m l = Inr m' \<and>
              mapGet (bounds m') (field3 l) = Some (Finite 0, Finite v)"
proof -
  from assms(4) have "field4 l \<noteq> []"
    by (auto simp: parseFloat_def trimStart_def)
  with assms show ?thesis
    by (simp add: boundsLine_def setBounds_def Let_def mapGet_mapSet_same)
qed

lemma trimEnd_comment:
  assumes "startsWith ''*'' l"
  shows "trimEnd l \<noteq> ''ROWS''"
proof -
  from assms obtain r where l: "l = CHR ''*'' # r"
    by (cases l) (auto simp: startsWith_def)
  have "\<not> isSpace CHR ''*''"
    by (simp add: isSpace_def)
  then have "trimEnd l = CHR ''*'' # trimEnd r"
    by (simp add: l trimEnd_def dropWhile_append)
  then show ?thesis by simp
qed

lemma comment_after_name_general:
  assumes "findIndex (startsWith ''NAME'') (splitLines mps) = Some i"
    and "Suc i < length (splitLines mps)"
    and "startsWith ''*'' (splitLines mps ! Suc i)"
  shows "modelFromMps mps dir =
           Inl (i + 2, SectionMismatch ''ROWS'' (Some (trimEnd (splitLines mps ! Suc i))))"
  using assms trimEnd_comment [OF assms(3)]
  by (simp add: modelFromMps_def readName_def readRows_def expectSection_def readSection_def
        sectionErr_def Let_def)

lemma nextLineFrom_no_comment:
  "nextLineFrom ls i = Some j \<Longrightarrow> \<not> startsWith ''*'' (ls ! j)"
proof (induction ls i rule: nextLineFrom.induct)
  case (1 ls i)
  show ?case
  proof (cases "i < length ls \<and> startsWith ''*'' (ls ! i)")
    case True
    with "1.prems" have "nextLineFrom ls (Suc i) = Some j"
      by (subst (asm) nextLineFrom.simps) simp
    with "1.IH" True show ?thesis by blast
  next
    case False
    with "1.prems" show ?thesis
      by (subst (asm) nextLineFrom.simps) (auto split: if_splits)
  qed
qed

lemma nextLine_no_comment: "nextLine s = (Some l, s') \<Longrightarrow> \<not> startsWith ''*'' l"
  by (auto simp: nextLine_def split: option.splits dest!: nextLineFrom_no_comment)

lemma parseFloat_empty: "parseFloat [] = NaN"
  by (simp add: parseFloat_def trimStart_def)

lemma comments_elsewhere_skipped:
  "modelFromMps commentsElsewhereDocument dir = modelFromMps minimalDocument dir"
  unfolding commentsElsewhereDocument_def minimalDocument_def by code_simp

lemma upper_then_lower_loses_upper:
  "\<exists>m. modelFromMps upperThenLowerDocument dir = Inr m \<and>
       mapGet (bounds m) ''X'' = Some (Finite 5, PosInf)"
proof -
  have "modelFromMps upperThenLowerDocument dir =
     Inr \<lparr>name = ''test'', direction = dir, objective = Some ''COST'',
          constraints = [(''COST'', NegInf, PosInf), (''LIM1'', NegInf, Finite 10)],
          variables = [(''X'', [(''COST'', Finite 1), (''LIM1'', Finite 1)])],
          integers = [], binaries = [], bounds = [(''X'', Finite 5, PosInf)]\<rparr>"
    unfolding upperThenLowerDocument_def by code_simp
  then show ?thesis by (simp add: mapGet_def)
qed

lemma half_pair_documents:
  "modelFromMps halfPairCoefficientDocument dir = Inl (6, MissingCoefficient)"
  "modelFromMps halfPairRowDocument dir = Inl (6, MissingRowName)"
  unfolding halfPairCoefficientDocument_def halfPairRowDocument_def by code_simp+

lemma range_documents:
  "modelFromMps rangeUpDocument dir =
     Inr \<lparr>name = ''test'', direction = dir, objective = Some ''COST'',
          constraints = [(''COST'', NegInf, PosInf), (''EQ1'', Finite 10, Finite 14)],
          variables = [(''X'', [(''COST'', Finite 1), (''EQ1'', Finite 1)])],
          integers = [], binaries = [], bounds = []\<rparr>"
  "modelFromMps rangeDownDocument dir =
     Inr \<lparr>name = ''test'', direction = dir, objective = Some ''COST'',
          constraints = [(''COST'', NegInf, PosInf), (''EQ1'', Finite 6, Finite 10)],
          variables = [(''X'', [(''COST'', Finite 1), (''EQ1'', Finite 1)])],
          integers = [], binaries = [], bounds = []\<rparr>"
  unfolding rangeUpDocument_def rangeDownDocument_def by code_simp+

lemma indented_not_comment: "startsWith '' '' l \<Longrightarrow> \<not> startsWith ''*'' l"
  by (cases l) (auto simp: startsWith_def)

lemma nextLineFrom_skipped:
  "nextLineFrom ls i = Some j \<Longrightarrow> i \<le> t \<Longrightarrow> t < j \<Longrightarrow> startsWith ''*'' (ls ! t)"
proof (induction ls i rule: nextLineFrom.induct)
  case (1 ls i)
  show ?case
  proof (cases "i < length ls \<and> startsWith ''*'' (ls ! i)")
    case True
    with "1.prems"(1) have nxt: "nextLineFrom ls (Suc i) = Some j"
      by (subst (asm) nextLineFrom.simps) simp
    show ?thesis
    proof (cases "t = i")
      case True
      with \<open>i < length ls \<and> startsWith ''*'' (ls ! i)\<close> show ?thesis by simp
    next
      case False
      with "1.prems"(2) have "Suc i \<le> t" by simp
      with "1.IH" True nxt "1.prems"(3) show ?thesis by blast
    qed
  next
    case False
    with "1.prems"(1) have "j = i"
      by (subst (asm) nextLineFrom.simps) (auto split: if_splits)
    with "1.prems"(2,3) show ?thesis by simp
  qed
qed

lemma nextLineFrom_None:
  "nextLineFrom ls i = None \<Longrightarrow> i \<le> t \<Longrightarrow> t < length ls \<Longrightarrow> startsWith ''*'' (ls ! t)"
proof (induction ls i rule: nextLineFrom.induct)
  case (1 ls i)
  from "1.prems"(2,3) have il: "i < length ls" by simp
  with "1.prems"(1) have c: "startsWith ''*'' (ls ! i)" and nxt: "nextLineFrom ls (Suc i) = None"
    by (subst (asm) nextLineFrom.simps, simp split: if_splits)+
  show ?case
  proof (cases "t = i")
    case True
    with c show ?thesis by simp
  next
    case False
    with "1.prems"(2) have "Suc i \<le> t" by simp
    with "1.IH" il c nxt "1.prems"(3) show ?thesis by blast
  qed
qed

text \<open>The cursor moves to the first later line that is no comment.\<close>

lemma nextLine_reaches:
  assumes "index s < k" and "k < length (lines s)" and "\<not> startsWith ''*'' (lines s ! k)"
  shows "\<exists>j. nextLine s = (Some (lines s ! j), s\<lparr>index := j\<rparr>) \<and> index s < j \<and> j \<le> k"
proof (cases "nextLineFrom (lines s) (index s + 1)")
  case None
  from nextLineFrom_None [OF None, of k] assms show ?thesis by simp
next
  case (Some j)
  have "j \<le> k"
  proof (rule ccontr)
    assume "\<not> j \<le> k"
    with nextLineFrom_skipped [OF Some, of k] assms show False by simp
  qed
  moreover from nextLineFrom_bounds [OF Some] have "index s < j" by simp
  moreover from Some have "nextLine s = (Some (lines s ! j), s\<lparr>index := j\<rparr>)"
    by (simp add: nextLine_def)
  ultimately show ?thesis by blast
qed

lemma mapGet_mapSet_other: "k' \<noteq> k \<Longrightarrow> mapGet (mapSet k v mp) k' = mapGet mp k'"
  by (induction mp) (auto simp: mapGet_def)

lemma setBounds_other:
  "col \<noteq> nm \<Longrightarrow> mapGet (bounds (setBounds m nm lo hi)) col = mapGet (bounds m) col"
  by (simp add: setBounds_def Let_def mapGet_mapSet_other)

lemma boundsLine_other:
  assumes "boundsLine m l = Inr m1" and "field3 l \<noteq> col"
  shows "mapGet (bounds m1) col = mapGet (bounds m) col"
proof -
  from assms(2) have ne: "col \<noteq> field3 l" by blast
  have sb: "mapGet (bounds (setBounds mm (field3 l) lo hi)) col = mapGet (bounds mm) col" for mm lo hi
    by (rule setBounds_other [OF ne])
  from assms(1) show ?thesis
    unfolding boundsLine_def Let_def
    by (auto split: if_splits sum.splits simp: sb)
qed

lemma boundsLine_UP_value:
  assumes "boundsLine m l = Inr m1" and "field1 l = ''UP''"
    and "parseFloat (field4 l) = Finite v"
  shows "mapGet (bounds m1) (field3 l) = Some (Finite 0, Finite v)"
  using assms
  by (auto simp: boundsLine_def Let_def setBounds_def mapGet_mapSet_same split: if_splits)


text \<open>Lines that do not name the column leave its pair as it is.\<close>

lemma readBoundsLoop_other:
  "readBoundsLoop s m line = (None, sf, mf) \<Longrightarrow>
   (\<forall>l. line = Some l \<longrightarrow> l = lines s ! index s \<and> index s < length (lines s)) \<Longrightarrow>
   (\<forall>t. index s \<le> t \<and> t < length (lines s) \<and> startsWith '' '' (lines s ! t)
        \<longrightarrow> field3 (lines s ! t) \<noteq> col) \<Longrightarrow>
   mapGet (bounds mf) col = mapGet (bounds m) col"
proof (induction s m line rule: readBoundsLoop.induct)
  case (1 s m)
  then show ?case by simp
next
  case (2 s m l)
  show ?case
  proof (cases "notSectionEnd (Some l)")
    case False
    with "2.prems"(1) show ?thesis by simp
  next
    case True
    then have ind: "startsWith '' '' l"
      by (simp add: notSectionEnd_def)
    from "2.prems"(2) have l: "l = lines s ! index s" and il: "index s < length (lines s)"
      by simp_all
    from "2.prems"(1) True obtain m1 where m1: "boundsLine m l = Inr m1"
      by (auto split: sum.splits)
    obtain line' s' where n: "nextLine s = (line', s')"
      by (cases "nextLine s")
    from "2.prems"(1) True m1 n have run: "readBoundsLoop s' m1 line' = (None, sf, mf)"
      by simp
    from "2.prems"(3) l il ind have "field3 l \<noteq> col"
      by blast
    with m1 have keep: "mapGet (bounds m1) col = mapGet (bounds m) col"
      by (rule boundsLine_other)
    have cur: "\<forall>l'. line' = Some l' \<longrightarrow> l' = lines s' ! index s' \<and> index s' < length (lines s')"
      using n nextLine_Some by fastforce
    have ls: "lines s' = lines s" and idx: "index s \<le> index s'"
      using n nextLine_Some [of s _ s'] nextLine_None [of s s']
      by (cases line'; fastforce)+
    from "2.prems"(3) ls idx
    have rest: "\<forall>t. index s' \<le> t \<and> t < length (lines s') \<and> startsWith '' '' (lines s' ! t)
                  \<longrightarrow> field3 (lines s' ! t) \<noteq> col"
      by simp
    from "2.IH" [OF True m1 n [symmetric] run cur rest] keep show ?thesis
      by simp
  qed
qed

text \<open>
  The loop of the BOUNDS section from a data line at or before the line \<open>k\<close>, when the
  line \<open>k\<close> is an \<open>UP\<close> entry for the column and no later data line names the column.
\<close>

lemma readBoundsLoop_upper:
  "readBoundsLoop s m line = (None, sf, mf) \<Longrightarrow>
   line = Some (lines s ! index s) \<Longrightarrow>
   \<not> startsWith ''*'' (lines s ! index s) \<Longrightarrow>
   index s \<le> k \<Longrightarrow> k < length (lines s) \<Longrightarrow>
   (\<forall>t. index s \<le> t \<and> t < k
        \<longrightarrow> startsWith '' '' (lines s ! t) \<or> startsWith ''*'' (lines s ! t)) \<Longrightarrow>
   startsWith '' '' (lines s ! k) \<Longrightarrow> field1 (lines s ! k) = ''UP'' \<Longrightarrow>
   field3 (lines s ! k) = col \<Longrightarrow> parseFloat (field4 (lines s ! k)) = Finite v \<Longrightarrow>
   (\<forall>t. k < t \<and> t < length (lines s) \<and> startsWith '' '' (lines s ! t)
        \<longrightarrow> field3 (lines s ! t) \<noteq> col) \<Longrightarrow>
   mapGet (bounds mf) col = Some (Finite 0, Finite v)"
proof (induction s m line rule: readBoundsLoop.induct)
  case (1 s m)
  then show ?case by simp
next
  case (2 s m l)
  from "2.prems"(2) have l: "l = lines s ! index s"
    by simp
  have ind: "startsWith '' '' l"
  proof (cases "index s = k")
    case True
    with "2.prems"(7) l show ?thesis by simp
  next
    case False
    with "2.prems"(3,4,6) l show ?thesis by auto
  qed
  then have nse: "notSectionEnd (Some l)"
    by (simp add: notSectionEnd_def)
  from "2.prems"(1) nse obtain m1 where m1: "boundsLine m l = Inr m1"
    by (auto split: sum.splits)
  obtain line' s' where n: "nextLine s = (line', s')"
    by (cases "nextLine s")
  from "2.prems"(1) nse m1 n have run: "readBoundsLoop s' m1 line' = (None, sf, mf)"
    by simp
  show ?case
  proof (cases "index s = k")
    case True
    with m1 l "2.prems"(8,9,10) have here: "mapGet (bounds m1) col = Some (Finite 0, Finite v)"
      using boundsLine_UP_value by blast
    have cur: "\<forall>l'. line' = Some l' \<longrightarrow> l' = lines s' ! index s' \<and> index s' < length (lines s')"
      using n nextLine_Some by fastforce
    have "mapGet (bounds mf) col = mapGet (bounds m1) col"
    proof (cases line')
      case None
      with run show ?thesis by simp
    next
      case (Some l')
      with n have ls: "lines s' = lines s" and idx: "index s < index s'"
        using nextLine_Some by blast+
      with "2.prems"(11) True
      have rest: "\<forall>t. index s' \<le> t \<and> t < length (lines s') \<and> startsWith '' '' (lines s' ! t)
                    \<longrightarrow> field3 (lines s' ! t) \<noteq> col"
        by simp
      from readBoundsLoop_other [OF run cur rest] show ?thesis .
    qed
    with here show ?thesis by simp
  next
    case False
    with "2.prems"(4) have lt: "index s < k"
      by simp
    from "2.prems"(7) have "\<not> startsWith ''*'' (lines s ! k)"
      by (rule indented_not_comment)
    from nextLine_reaches [OF lt "2.prems"(5) this] n
    obtain j where j: "line' = Some (lines s ! j)" "s' = s\<lparr>index := j\<rparr>" "index s < j" "j \<le> k"
      by auto
    from n j(1) have nc: "\<not> startsWith ''*'' (lines s ! j)"
      using nextLine_no_comment by blast
    have "mapGet (bounds mf) col = Some (Finite 0, Finite v)"
    proof (rule "2.IH" [OF nse m1 n [symmetric] run])
      show "line' = Some (lines s' ! index s')" using j by simp
      show "\<not> startsWith ''*'' (lines s' ! index s')" using j nc by simp
      show "index s' \<le> k" using j by simp
      show "k < length (lines s')" using j "2.prems"(5) by simp
      show "\<forall>t. index s' \<le> t \<and> t < k
              \<longrightarrow> startsWith '' '' (lines s' ! t) \<or> startsWith ''*'' (lines s' ! t)"
        using j "2.prems"(6) by simp
      show "startsWith '' '' (lines s' ! k)" using j "2.prems"(7) by simp
      show "field1 (lines s' ! k) = ''UP''" using j "2.prems"(8) by simp
      show "field3 (lines s' ! k) = col" using j "2.prems"(9) by simp
      show "parseFloat (field4 (lines s' ! k)) = Finite v" using j "2.prems"(10) by simp
      show "\<forall>t. k < t \<and> t < length (lines s') \<and> startsWith '' '' (lines s' ! t)
              \<longrightarrow> field3 (lines s' ! t) \<noteq> col"
        using j "2.prems"(11) by simp
    qed
    then show ?thesis .
  qed
qed

lemma nextLine_over_comments:
  assumes "index s < j" and "j < length (lines s)" and "\<not> startsWith ''*'' (lines s ! j)"
    and "onlyComments (lines s) (index s) j"
  shows "nextLine s = (Some (lines s ! j), s\<lparr>index := j\<rparr>)"
proof -
  from nextLine_reaches [OF assms(1-3)]
  obtain j' where j': "nextLine s = (Some (lines s ! j'), s\<lparr>index := j'\<rparr>)" "index s < j'" "j' \<le> j"
    by blast
  from j'(1) have "\<not> startsWith ''*'' (lines s ! j')"
    using nextLine_no_comment by blast
  with assms(4) j'(2,3) have "j' = j"
    by (auto simp: onlyComments_def list_all_iff)
  with j'(1) show ?thesis by simp
qed

lemma addCoefficient_index:
  "addCoefficient (s\<lparr>index := j\<rparr>) v row x = addCoefficient s v row x"
  by (simp add: addCoefficient_def)

lemma columnLine_index: "columnLine (s\<lparr>index := j\<rparr>) v l = columnLine s v l"
  by (simp add: columnLine_def addCoefficient_index Let_def split: sum.splits)

lemma rowsLine_variables: "rowsLine s m l = Inr (s1, m1) \<Longrightarrow> variables m1 = variables m"
  by (auto simp: rowsLine_def Let_def split: if_splits)

lemma readRowsLoop_variables:
  "readRowsLoop s m line = (e, sf, mf) \<Longrightarrow> variables mf = variables m"
proof (induction s m line rule: readRowsLoop.induct)
  case (1 s m)
  then show ?case by simp
next
  case (2 s m l)
  show ?case
  proof (cases "notSectionEnd (Some l)")
    case False
    with "2.prems" show ?thesis by simp
  next
    case True
    show ?thesis
    proof (cases "rowsLine s m l")
      case (Inl err)
      with "2.prems" True show ?thesis by simp
    next
      case (Inr p)
      obtain s1 m1 where p: "p = (s1, m1)" by (cases p)
      obtain line' s' where n: "nextLine s1 = (line', s')" by (cases "nextLine s1")
      from "2.prems" True Inr p n have "readRowsLoop s' m1 line' = (e, sf, mf)"
        by simp
      with "2.IH" [OF True Inr p [symmetric] n [symmetric]]
      have "variables mf = variables m1" by simp
      with Inr p show ?thesis
        using rowsLine_variables by fastforce
    qed
  qed
qed

lemma columnsEntry_variables: "columnsEntry mps dir = Some (s, m) \<Longrightarrow> variables m = []"
  by (auto simp: columnsEntry_def Let_def split: option.splits prod.splits
        dest!: readRowsLoop_variables)

lemma modelFromMps_columns:
  "columnsEntry mps dir = Some (s, m) \<Longrightarrow>
     modelFromMps mps dir =
       (case readColumns s m of
          (Some e, s', m') \<Rightarrow> Inl (index s' + 1, e)
        | (None, s', m') \<Rightarrow> Inr m')"
  by (auto simp: columnsEntry_def modelFromMps_def readName_def readRows_def Let_def
        split: option.splits prod.splits)

lemma map_of_mapSet: "map_of (mapSet k v mp) = (map_of mp)(k \<mapsto> v)"
  by (induction mp) (auto simp: fun_eq_iff)

lemma mapHas_mapSet: "mapHas (mapSet k v mp) k' = (k' = k \<or> mapHas mp k')"
  by (simp add: mapHas_def map_of_mapSet)

text \<open>
  The loop of the COLUMNS section, from any state with the cursor at the first of two
  lines for a new column \<open>X\<close> that are followed by a line for a new column \<open>Y\<close> and
  then by another line for \<open>X\<close>: it returns the error with the cursor at that line.
\<close>

lemma readColumnsLoop_non_consecutive:
  assumes order: "a < b" "b < c" "c < d" "d < length (lines s)"
    and gaps: "onlyComments (lines s) a b" "onlyComments (lines s) b c"
      "onlyComments (lines s) c d"
    and names: "X \<noteq> []" "Y \<noteq> []" "X \<noteq> Y"
    and fresh: "\<not> mapHas (variables m) X" "\<not> mapHas (variables m) Y"
    and first: "startsWith '' '' (lines s ! a)" "field3 (lines s ! a) \<noteq> MARKER"
      "field2 (lines s ! a) = X" "columnLine s [] (lines s ! a) = Inr va"
    and second: "startsWith '' '' (lines s ! b)" "field2 (lines s ! b) = X"
      "columnLine s va (lines s ! b) = Inr vb"
    and other: "startsWith '' '' (lines s ! c)" "field3 (lines s ! c) \<noteq> MARKER"
      "field2 (lines s ! c) = Y" "columnLine s [] (lines s ! c) = Inr vc"
    and again: "startsWith '' '' (lines s ! d)" "field3 (lines s ! d) \<noteq> MARKER"
      "field2 (lines s ! d) = X"
  shows "\<exists>m'. readColumnsLoop (s\<lparr>index := a\<rparr>) m integerMarked (Some (lines s ! a))
                = (Some (NonConsecutiveColumn X), s\<lparr>index := d\<rparr>, m')"
proof -
  let ?la = "lines s ! a" and ?lb = "lines s ! b" and ?lc = "lines s ! c" and ?ld = "lines s ! d"
  let ?sa = "s\<lparr>index := a\<rparr>" and ?sb = "s\<lparr>index := b\<rparr>"
  let ?sc = "s\<lparr>index := c\<rparr>" and ?sd = "s\<lparr>index := d\<rparr>"
  let ?m1 = "m\<lparr>variables := mapSet X vb (variables m),
               integers := (if integerMarked then setAdd X (integers m) else integers m)\<rparr>"
  let ?m2 = "?m1\<lparr>variables := mapSet Y vc (variables ?m1),
                 integers := (if integerMarked then setAdd Y (integers ?m1) else integers ?m1)\<rparr>"
  have nc: "\<not> startsWith ''*'' ?lb" "\<not> startsWith ''*'' ?lc" "\<not> startsWith ''*'' ?ld"
    using second(1) other(1) again(1) by (simp_all add: indented_not_comment)
  have nse: "notSectionEnd (Some ?la)" "notSectionEnd (Some ?lb)"
    "notSectionEnd (Some ?lc)" "notSectionEnd (Some ?ld)"
    using first(1) second(1) other(1) again(1) by (simp_all add: notSectionEnd_def)
  have n1: "nextLine ?sa = (Some ?lb, ?sb)"
    using nextLine_over_comments [of ?sa b] order gaps(1) nc(1) by simp
  have n2: "nextLine ?sb = (Some ?lc, ?sc)"
    using nextLine_over_comments [of ?sb c] order gaps(2) nc(2) by simp
  have n3: "nextLine ?sc = (Some ?ld, ?sd)"
    using nextLine_over_comments [of ?sc d] order gaps(3) nc(3) by simp
  have blockX2: "columnBlock ?sb va X ?lb = (None, vb, Some ?lc, ?sc)"
    using second(3) n2 other(3) names(3)
    by (subst columnBlock.simps) (simp add: columnLine_index)
  have blockX: "columnBlock ?sa [] X ?la = (None, vb, Some ?lc, ?sc)"
    using first(4) n1 nse(2) second(2) blockX2
    by (subst columnBlock.simps) (simp add: columnLine_index)
  have blockY: "columnBlock ?sc [] Y ?lc = (None, vc, Some ?ld, ?sd)"
    using other(4) n3 again(3) names(3)
    by (subst columnBlock.simps) (simp add: columnLine_index)
  have hasX: "mapHas (variables ?m2) X" and freshY: "\<not> mapHas (variables ?m1) Y"
    using names(3) fresh(2) by (simp_all add: mapHas_mapSet)
  have loopd: "readColumnsLoop ?sd ?m2 integerMarked (Some ?ld)
                 = (Some (NonConsecutiveColumn X), ?sd, ?m2)"
    using nse(4) again(2,3) names(1) hasX by simp
  have loopc: "readColumnsLoop ?sc ?m1 integerMarked (Some ?lc)
                 = (Some (NonConsecutiveColumn X), ?sd, ?m2)"
    using nse(3) other(2,3) names(2) freshY blockY loopd by simp
  have loopa: "readColumnsLoop ?sa m integerMarked (Some ?la)
                 = (Some (NonConsecutiveColumn X), ?sd, ?m2)"
    using nse(1) first(2,3) names(1) fresh(1) blockX loopc by simp
  then show ?thesis by blast
qed

lemma upperOnlyDocument_bounds:
  "\<exists>m. modelFromMps upperOnlyDocument dir = Inr m \<and>
       mapGet (bounds m) ''X'' = Some (Finite 0, Finite (- 5))"
proof -
  have "modelFromMps upperOnlyDocument dir =
     Inr \<lparr>name = ''test'', direction = dir, objective = Some ''COST'',
          constraints = [(''COST'', NegInf, PosInf), (''LIM1'', NegInf, Finite 10)],
          variables = [(''X'', [(''COST'', Finite 1), (''LIM1'', Finite 1)])],
          integers = [], binaries = [], bounds = [(''X'', Finite 0, Finite (- 5))]\<rparr>"
    unfolding upperOnlyDocument_def by code_simp
  then show ?thesis by (simp add: mapGet_def)
qed

text \<open>
  The state and the model of the BOUNDS section are those of the parse of the document,
  and the parse ends with what \<^verbatim>\<open>readBounds\<close> returns for them.
\<close>

lemma boundsSection_document:
  "modelFromMps (joinLines boundsSectionLines) minimize =
     (case readBounds boundsSectionState boundsSectionModel of
        (Some e, s', m') \<Rightarrow> Inl (index s' + 1, e)
      | (None, s', m') \<Rightarrow> Inr m')"
  "modelFromMps (joinLines boundsSectionLines) dir =
     Inr \<lparr>name = ''test'', direction = dir, objective = Some ''COST'',
          constraints = [(''COST'', NegInf, PosInf), (''LIM1'', NegInf, Finite 10)],
          variables = [(''X'', [(''COST'', Finite 1), (''LIM1'', Finite 1)]),
                       (''Y'', [(''COST'', Finite 2), (''LIM1'', Finite 1)]),
                       (''Z'', [(''COST'', Finite 3)])],
          integers = [], binaries = [],
          bounds = [(''Y'', Finite 1, PosInf), (''X'', Finite 0, Finite (- 5)),
                    (''Z'', Finite 2, Finite 2)]\<rparr>"
  by code_simp+

lemma nonConsecutiveDocument_result:
  "modelFromMps nonConsecutiveDocument dir = Inl (10, NonConsecutiveColumn ''X'')"
  unfolding nonConsecutiveDocument_def by code_simp

lemma half_pair_first_pair_rejected:
  "modelFromMps undefinedRowHalfPairDocument dir = Inl (6, UndefinedRow ''NOPE'')"
  by code_simp

section \<open>The minimal document\<close>

text \<open>
  C1. The document with the NAME line naming \<open>test\<close>, the rows \<open>N COST\<close> and
  \<open>L LIM1\<close>, the column \<open>X\<close> with the coefficients \<open>COST 1.0\<close> and \<open>LIM1 1.0\<close>, the
  right-hand side \<open>LIM1 10.0\<close> and ENDATA is read without error, whatever the direction
  passed. The model returned has the pair \<open>(-Infinity, 10)\<close> for \<open>LIM1\<close>, the objective
  \<open>COST\<close>, the coefficients \<open>COST \<mapsto> 1, LIM1 \<mapsto> 1\<close> for \<open>X\<close>, and no bounds.
\<close>

theorem minimal_document_parses:
  "\<exists>m. modelFromMps minimalDocument dir = Inr m \<and>
       mapGet (constraints m) ''LIM1'' = Some (NegInf, Finite 10) \<and>
       objective m = Some ''COST'' \<and>
       mapGet (variables m) ''X'' = Some [(''COST'', Finite 1), (''LIM1'', Finite 1)] \<and>
       bounds m = []"
  unfolding minimalDocument_model by (simp add: mapGet_def)

section \<open>The field windows\<close>

text \<open>
  C2, as the code has it. For every line, each field extractor returns the trimmed
  characters of a fixed window of 0-based positions: field1 \<open>[1, 3)\<close>, field2
  \<open>[4, 12)\<close>, field3 \<open>[14, 22)\<close>, field4 \<open>[24, 36)\<close>, field5 \<open>[39, 47)\<close> and field6
  \<open>[49, 61)\<close>.
\<close>

theorem field_windows:
  "field1 line = trim (charRange 1 3 line) \<and>
   field2 line = trim (charRange 4 12 line) \<and>
   field3 line = trim (charRange 14 22 line) \<and>
   field4 line = trim (charRange 24 36 line) \<and>
   field5 line = trim (charRange 39 47 line) \<and>
   field6 line = trim (charRange 49 61 line)"
  by (simp add: field1_def field2_def field3_def field4_def field5_def field6_def
        substring_charRange)

text \<open>
  With the windows \<open>[3, 11)\<close>, \<open>[13, 21)\<close>, \<open>[23, 35)\<close>, \<open>[38, 46)\<close> and \<open>[48, 60)\<close>
  for the fields 2 to 6 the statement fails: on the ruler line only field1 is the
  content of its stated window.
\<close>

theorem field_windows_as_stated_counterexample:
  "field1 rulerLine = trim (charRange 1 3 rulerLine) \<and>
   field2 rulerLine \<noteq> trim (charRange 3 11 rulerLine) \<and>
   field3 rulerLine \<noteq> trim (charRange 13 21 rulerLine) \<and>
   field4 rulerLine \<noteq> trim (charRange 23 35 rulerLine) \<and>
   field5 rulerLine \<noteq> trim (charRange 38 46 rulerLine) \<and>
   field6 rulerLine \<noteq> trim (charRange 48 60 rulerLine)"
  unfolding rulerLine_def by code_simp

section \<open>Column inference in the solution report\<close>

text \<open>
  C8, as the code has it. For the header line \<open>Index Lower Upper Primal Dual\<close> and a
  first data line that reaches through the span of \<open>Dual\<close> (positions 25 to 28) and is
  blank at each of its positions, the inferred headers do not contain \<open>Dual\<close>; each of
  \<open>Index\<close>, \<open>Lower\<close>, \<open>Upper\<close> and \<open>Primal\<close> is among them exactly when the data line
  has a character other than a blank under the first or under the last character of
  that header.
\<close>

theorem headers_dual_blank:
  assumes "29 \<le> length d" and "\<forall>i \<in> {25..<29}. d ! i = CHR '' ''"
  shows "''Dual'' \<notin> set (headersForNonEmptyColumns reportHeader d) \<and>
         (''Index'' \<in> set (headersForNonEmptyColumns reportHeader d)
            \<longleftrightarrow> d ! 0 \<noteq> CHR '' '' \<or> d ! 4 \<noteq> CHR '' '') \<and>
         (''Lower'' \<in> set (headersForNonEmptyColumns reportHeader d)
            \<longleftrightarrow> d ! 6 \<noteq> CHR '' '' \<or> d ! 10 \<noteq> CHR '' '') \<and>
         (''Upper'' \<in> set (headersForNonEmptyColumns reportHeader d)
            \<longleftrightarrow> d ! 12 \<noteq> CHR '' '' \<or> d ! 16 \<noteq> CHR '' '') \<and>
         (''Primal'' \<in> set (headersForNonEmptyColumns reportHeader d)
            \<longleftrightarrow> d ! 18 \<noteq> CHR '' '' \<or> d ! 23 \<noteq> CHR '' '')"
proof -
  have c: "charAt d i = Some (d ! i)" if "i < 29" for i
    using that assms(1) by (simp add: charAt_def)
  have cs: "charAt d 0 = Some (d ! 0)" "charAt d 4 = Some (d ! 4)"
    "charAt d 6 = Some (d ! 6)" "charAt d 10 = Some (d ! 10)"
    "charAt d 12 = Some (d ! 12)" "charAt d 16 = Some (d ! 16)"
    "charAt d 18 = Some (d ! 18)" "charAt d 23 = Some (d ! 23)"
    "charAt d 25 = Some (d ! 25)" "charAt d 28 = Some (d ! 28)"
    by (simp_all add: c)
  from assms(2) have blank: "d ! 25 = CHR '' ''" "d ! 28 = CHR '' ''"
    by simp_all
  show ?thesis
    unfolding headers_reportHeader cs by (simp add: blank)
qed

theorem headers_dual_blank_witness:
  "29 \<le> length ''    1     0   inf      5     '' \<and>
   list_all (\<lambda>i. ''    1     0   inf      5     '' ! i = CHR '' '') [25..<29] \<and>
   ''Dual'' \<notin> set (headersForNonEmptyColumns reportHeader ''    1     0   inf      5     '') \<and>
   headersForNonEmptyColumns reportHeader ''    1     0   inf      5     ''
     = [''Index'', ''Lower'', ''Upper'', ''Primal'']"
proof -
  have h1: "29 \<le> length ''    1     0   inf      5     ''"
    by simp
  have h2: "\<forall>i \<in> {25..<29}. ''    1     0   inf      5     '' ! i = CHR '' ''"
    by (simp add: atLeastLessThan_upt [symmetric] del: upt_Suc) code_simp
  have "''Dual'' \<notin> set (headersForNonEmptyColumns reportHeader ''    1     0   inf      5     '')"
    using headers_dual_blank [OF h1 h2] by blast
  moreover have "list_all (\<lambda>i. ''    1     0   inf      5     '' ! i = CHR '' '') [25..<29]"
    by code_simp
  ultimately show ?thesis
    using h1 by (simp add: headers_reportHeader charAt_def)
qed

text \<open>
  The statement that \<open>Index\<close>, \<open>Lower\<close>, \<open>Upper\<close> and \<open>Primal\<close> are always among the
  inferred headers fails on a data line of twenty-nine blanks: it is blank under the
  whole span of \<open>Dual\<close>, and \<open>Index\<close> is not inferred.
\<close>

theorem headers_all_blank_counterexample:
  "29 \<le> length (replicate 29 CHR '' '') \<and>
   list_all (\<lambda>i. replicate 29 CHR '' '' ! i = CHR '' '') [25..<29] \<and>
   ''Index'' \<notin> set (headersForNonEmptyColumns reportHeader (replicate 29 CHR '' ''))"
  by (simp add: headers_reportHeader charAt_def)

text \<open>
  C9. A header token that starts at or after the end of the first data line is kept:
  the data line has no character under it, and a missing character is not the blank.
\<close>

theorem header_beyond_line_kept:
  assumes "(i, tok) \<in> set (matchAll headerLine)" and "length firstDataLine \<le> i"
  shows "tok \<in> set (headersForNonEmptyColumns headerLine firstDataLine)"
proof -
  from assms(2) have "charAt firstDataLine i = None"
    by (simp add: charAt_def)
  with assms(1) show ?thesis
    unfolding headersForNonEmptyColumns_def by force
qed

theorem header_beyond_line_kept_witness:
  "(25, ''Dual'') \<in> set (matchAll reportHeader) \<and> length ''    1     0'' \<le> 25 \<and>
   ''Dual'' \<in> set (headersForNonEmptyColumns reportHeader ''    1     0'')"
  using header_beyond_line_kept [of 25 "''Dual''" reportHeader "''    1     0''"]
  by (simp add: matchAll_reportHeader)

section \<open>Bounds of a column\<close>

text \<open>
  C4. Take any state at the header of a BOUNDS section and any model, and let the
  section be read without error. If the line \<open>k\<close> of the section is an \<open>UP\<close> entry for
  the column \<open>col\<close> with a value that reads as \<open>-5\<close>, the lines between the header and
  \<open>k\<close> are data lines or comments, and no other data line after the header names
  \<open>col\<close>, then the parse ends with the pair \<open>(0, -5)\<close> for \<open>col\<close>: the lower bound is
  the default 0 and the upper bound is \<open>-5\<close>.
\<close>

theorem upper_only_bounds:
  assumes run: "readBounds s m = (None, s', m')"
    and pos: "index s < k" "k < length (lines s)"
    and before: "list_all (\<lambda>t. startsWith '' '' (lines s ! t) \<or> startsWith ''*'' (lines s ! t))
                   [Suc (index s)..<k]"
    and entry: "startsWith '' '' (lines s ! k)" "field1 (lines s ! k) = ''UP''"
      "field3 (lines s ! k) = col" "parseFloat (field4 (lines s ! k)) = Finite (- 5)"
    and only: "list_all (\<lambda>t. t = k \<or> \<not> startsWith '' '' (lines s ! t) \<or> field3 (lines s ! t) \<noteq> col)
                 [Suc (index s)..<length (lines s)]"
  shows "mapGet (bounds m') col = Some (Finite 0, Finite (- 5))"
proof -
  from entry(1) have nck: "\<not> startsWith ''*'' (lines s ! k)"
    by (rule indented_not_comment)
  from nextLine_reaches [OF pos nck]
  obtain j where j: "nextLine s = (Some (lines s ! j), s\<lparr>index := j\<rparr>)" "index s < j" "j \<le> k"
    by blast
  from j(1) have ncj: "\<not> startsWith ''*'' (lines s ! j)"
    using nextLine_no_comment by blast
  from run j(1) have loop: "readBoundsLoop (s\<lparr>index := j\<rparr>) m (Some (lines s ! j)) = (None, s', m')"
    by (auto simp: readBounds_def split: prod.splits option.splits)
  show ?thesis
  proof (rule readBoundsLoop_upper [OF loop])
    show "Some (lines s ! j) = Some (lines (s\<lparr>index := j\<rparr>) ! index (s\<lparr>index := j\<rparr>))" by simp
    show "\<not> startsWith ''*'' (lines (s\<lparr>index := j\<rparr>) ! index (s\<lparr>index := j\<rparr>))" using ncj by simp
    show "index (s\<lparr>index := j\<rparr>) \<le> k" using j by simp
    show "k < length (lines (s\<lparr>index := j\<rparr>))" using pos by simp
    show "\<forall>t. index (s\<lparr>index := j\<rparr>) \<le> t \<and> t < k \<longrightarrow>
            startsWith '' '' (lines (s\<lparr>index := j\<rparr>) ! t) \<or> startsWith ''*'' (lines (s\<lparr>index := j\<rparr>) ! t)"
      using before j(2) by (auto simp: list_all_iff)
    show "startsWith '' '' (lines (s\<lparr>index := j\<rparr>) ! k)" using entry by simp
    show "field1 (lines (s\<lparr>index := j\<rparr>) ! k) = ''UP''" using entry by simp
    show "field3 (lines (s\<lparr>index := j\<rparr>) ! k) = col" using entry by simp
    show "parseFloat (field4 (lines (s\<lparr>index := j\<rparr>) ! k)) = Finite (- 5)" using entry by simp
    show "\<forall>t. k < t \<and> t < length (lines (s\<lparr>index := j\<rparr>)) \<and> startsWith '' '' (lines (s\<lparr>index := j\<rparr>) ! t)
            \<longrightarrow> field3 (lines (s\<lparr>index := j\<rparr>) ! t) \<noteq> col"
      using only pos(1) by (auto simp: list_all_iff)
  qed
qed

theorem upper_only_bounds_witness:
  "\<exists>s' m'. readBounds boundsSectionState boundsSectionModel = (None, s', m') \<and>
           mapGet (bounds m') ''X'' = Some (Finite 0, Finite (- 5))"
proof -
  obtain r s' m' where r: "readBounds boundsSectionState boundsSectionModel = (r, s', m')"
    by (cases "readBounds boundsSectionState boundsSectionModel")
  have "fst (readBounds boundsSectionState boundsSectionModel) = None"
    by code_simp
  with r have run: "readBounds boundsSectionState boundsSectionModel = (None, s', m')"
    by simp
  have "mapGet (bounds m') ''X'' = Some (Finite 0, Finite (- 5))"
    by (rule upper_only_bounds [OF run, of 13]; code_simp)
  with run show ?thesis by blast
qed

text \<open>
  C3, what the code does on an \<open>LO\<close> entry followed by a \<open>UP\<close> entry for one column.
  The entry \<open>LO 5.0\<close> followed by \<open>UP 10.0\<close> for the column \<open>X\<close> ends the parse with
  the pair \<open>(0, 10)\<close>: the \<open>UP\<close> entry has put the lower bound back to 0, and the lower
  bound 5 of the \<open>LO\<close> entry is lost.
\<close>

theorem lower_then_upper_loses_lower:
  "\<exists>m. modelFromMps lowerThenUpperDocument dir = Inr m \<and>
       mapGet (bounds m) ''X'' = Some (Finite 0, Finite 10)"
proof -
  have "modelFromMps lowerThenUpperDocument dir =
     Inr \<lparr>name = ''test'', direction = dir, objective = Some ''COST'',
          constraints = [(''COST'', NegInf, PosInf), (''LIM1'', NegInf, Finite 10)],
          variables = [(''X'', [(''COST'', Finite 1), (''LIM1'', Finite 1)])],
          integers = [], binaries = [], bounds = [(''X'', Finite 0, Finite 10)]\<rparr>"
    unfolding lowerThenUpperDocument_def by code_simp
  then show ?thesis by (simp add: mapGet_def)
qed

section \<open>Ranges of an equality row\<close>

text \<open>
  C5. For a row of type \<open>E\<close> that has a bound pair, an RHS entry with the value 10 sets
  the pair to \<open>(10, 10)\<close>; from there a RANGES entry with the value 4 gives the pair
  \<open>(10, 14)\<close>, and one with the value -4 gives \<open>(6, 10)\<close>. The values are given by
  any texts that parse to them.
\<close>

theorem range_on_equality_row:
  assumes "mapGet (constraintTypes s) row = Some ''E''"
    and "mapGet (constraints m0) row = Some pair0"
    and "row \<noteq> []"
    and "parseFloat rhs = Finite 10"
    and "parseFloat plus4 = Finite 4"
    and "parseFloat minus4 = Finite (- 4)"
  shows "\<exists>m. addConstraint s m0 row rhs = Inr m \<and>
             mapGet (constraints m) row = Some (Finite 10, Finite 10) \<and>
             (\<exists>m'. addRange s m row plus4 = Inr m' \<and>
                    mapGet (constraints m') row = Some (Finite 10, Finite 14)) \<and>
             (\<exists>m'. addRange s m row minus4 = Inr m' \<and>
                    mapGet (constraints m') row = Some (Finite 6, Finite 10))"
proof -
  from assms(4-6) have ne: "rhs \<noteq> []" "plus4 \<noteq> []" "minus4 \<noteq> []"
    by (auto simp: parseFloat_empty)
  obtain c0 c1 where p: "pair0 = (c0, c1)"
    by (cases pair0)
  define m where "m = m0\<lparr>constraints := mapSet row (Finite 10, Finite 10) (constraints m0)\<rparr>"
  have rhs: "addConstraint s m0 row rhs = Inr m"
    using assms(1-4) ne p by (simp add: addConstraint_def m_def Let_def)
  have cur: "mapGet (constraints m) row = Some (Finite 10, Finite 10)"
    by (simp add: m_def mapGet_mapSet_same)
  have up: "\<exists>m'. addRange s m row plus4 = Inr m' \<and>
                 mapGet (constraints m') row = Some (Finite 10, Finite 14)"
    using assms(1,3,5) ne cur by (simp add: addRange_def mapGet_mapSet_same Let_def)
  have down: "\<exists>m'. addRange s m row minus4 = Inr m' \<and>
                 mapGet (constraints m') row = Some (Finite 6, Finite 10)"
    using assms(1,3,6) ne cur by (simp add: addRange_def mapGet_mapSet_same numSub_def Let_def)
  from rhs cur up down show ?thesis by blast
qed

theorem range_on_equality_row_witness:
  "\<exists>m. addConstraint equalityRowState equalityRowModel ''EQ1'' ''10.0'' = Inr m \<and>
       mapGet (constraints m) ''EQ1'' = Some (Finite 10, Finite 10) \<and>
       (\<exists>m'. addRange equalityRowState m ''EQ1'' ''4'' = Inr m' \<and>
              mapGet (constraints m') ''EQ1'' = Some (Finite 10, Finite 14)) \<and>
       (\<exists>m'. addRange equalityRowState m ''EQ1'' ''-4'' = Inr m' \<and>
              mapGet (constraints m') ''EQ1'' = Some (Finite 6, Finite 10))"
proof -
  have h1: "mapGet (constraintTypes equalityRowState) ''EQ1'' = Some ''E''"
    by (simp add: equalityRowState_def mapGet_def)
  have h2: "mapGet (constraints equalityRowModel) ''EQ1'' = Some (Finite 0, Finite 0)"
    by (simp add: equalityRowModel_def mapGet_def)
  have h3: "''EQ1'' \<noteq> []"
    by simp
  have h4: "parseFloat ''10.0'' = Finite 10"
    by code_simp
  have h5: "parseFloat ''4'' = Finite 4"
    by code_simp
  have h6: "parseFloat ''-4'' = Finite (- 4)"
    by code_simp
  show ?thesis
    by (rule range_on_equality_row [OF h1 h2 h3 h4 h5 h6])
qed

section \<open>Comment lines\<close>

text \<open>
  C6, what the code does on a comment line between the NAME line and the ROWS header.
  The reader does not skip it: it fails at line 2, the comment line, with the section
  mismatch for \<open>ROWS\<close> that reports the comment line as the section found.
\<close>

theorem comment_after_name_rejected:
  "modelFromMps commentAfterNameDocument dir =
     Inl (2, SectionMismatch ''ROWS'' (Some ''* a comment''))"
  unfolding commentAfterNameDocument_def by code_simp

section \<open>Columns\<close>

text \<open>
  C7, as the code has it. Take any document that is read without error up to the
  COLUMNS header and whose COLUMNS section has, with nothing but comment lines between
  them, a line for the column \<open>X\<close> at position \<open>a\<close>, a second line for \<open>X\<close> at \<open>b\<close>, a
  line for another column \<open>Y\<close> at \<open>c\<close> and then another line for \<open>X\<close> at \<open>d\<close>, the
  first three with coefficients that are accepted. The reader fails with the error for
  a column that is not consecutive, and the line number reported is \<open>d + 1\<close>: the
  1-based number of the line for \<open>X\<close> that follows the line for \<open>Y\<close>, which is the
  third line that names \<open>X\<close>.
\<close>

theorem non_consecutive_column_line:
  assumes entry: "columnsEntry mps dir = Some (s, m)"
    and header: "readSection s = Some ''COLUMNS''"
    and order: "index s < a" "a < b" "b < c" "c < d" "d < length (lines s)"
    and gaps: "onlyComments (lines s) (index s) a" "onlyComments (lines s) a b"
      "onlyComments (lines s) b c" "onlyComments (lines s) c d"
    and names: "X \<noteq> []" "Y \<noteq> []" "X \<noteq> Y"
    and first: "startsWith '' '' (lines s ! a)" "field3 (lines s ! a) \<noteq> MARKER"
      "field2 (lines s ! a) = X" "columnLine s [] (lines s ! a) = Inr va"
    and second: "startsWith '' '' (lines s ! b)" "field2 (lines s ! b) = X"
      "columnLine s va (lines s ! b) = Inr vb"
    and other: "startsWith '' '' (lines s ! c)" "field3 (lines s ! c) \<noteq> MARKER"
      "field2 (lines s ! c) = Y" "columnLine s [] (lines s ! c) = Inr vc"
    and again: "startsWith '' '' (lines s ! d)" "field3 (lines s ! d) \<noteq> MARKER"
      "field2 (lines s ! d) = X"
  shows "modelFromMps mps dir = Inl (d + 1, NonConsecutiveColumn X)"
proof -
  have vars: "variables m = []"
    using entry by (rule columnsEntry_variables)
  then have fresh: "\<not> mapHas (variables m) X" "\<not> mapHas (variables m) Y"
    by (simp_all add: mapHas_def)
  have "\<not> startsWith ''*'' (lines s ! a)"
    using first(1) by (rule indented_not_comment)
  with order gaps(1) have n0: "nextLine s = (Some (lines s ! a), s\<lparr>index := a\<rparr>)"
    by (intro nextLine_over_comments) simp_all
  from readColumnsLoop_non_consecutive
         [OF order(2-5) gaps(2-4) names fresh first second other again, of False]
  obtain m' where
    "readColumnsLoop (s\<lparr>index := a\<rparr>) m False (Some (lines s ! a))
       = (Some (NonConsecutiveColumn X), s\<lparr>index := d\<rparr>, m')"
    by blast
  with header n0 have "readColumns s m = (Some (NonConsecutiveColumn X), s\<lparr>index := d\<rparr>, m')"
    by (simp add: readColumns_def expectSection_def)
  with modelFromMps_columns [OF entry] show ?thesis
    by simp
qed

theorem non_consecutive_column_line_witness:
  "modelFromMps (joinLines commentedColumnsLines) minimize = Inl (13, NonConsecutiveColumn ''X'') \<and>
   map (\<lambda>t. field2 (commentedColumnsLines ! t)) [8, 9, 11, 12] = [''X'', ''X'', ''Y'', ''X'']"
proof -
  have entry: "columnsEntry (joinLines commentedColumnsLines) minimize
                 = Some (commentedColumnsState, commentedColumnsModel)"
    by code_simp
  have "modelFromMps (joinLines commentedColumnsLines) minimize
          = Inl (12 + 1, NonConsecutiveColumn ''X'')"
    by (rule non_consecutive_column_line
          [OF entry, of 8 9 11 12 "''X''" "''Y''" "[(''COST'', Finite 1)]"
             "[(''COST'', Finite 1), (''LIM1'', Finite 1)]" "[(''COST'', Finite 2)]"];
        code_simp)
  moreover have "map (\<lambda>t. field2 (commentedColumnsLines ! t)) [8, 9, 11, 12]
                   = [''X'', ''X'', ''Y'', ''X'']"
    by code_simp
  ultimately show ?thesis by simp
qed

text \<open>
  The line number is not that of the second line for \<open>X\<close>. In the document whose lines
  7, 8, 9 and 10 are the lines for \<open>X\<close>, \<open>X\<close>, \<open>Y\<close> and \<open>X\<close>, the second line for \<open>X\<close>
  is line 8, and the reader reports line 10.
\<close>

theorem second_column_line_counterexample:
  "map field2 (take 4 (drop 6 (splitLines nonConsecutiveDocument))) = [''X'', ''X'', ''Y'', ''X''] \<and>
   modelFromMps nonConsecutiveDocument minimize = Inl (10, NonConsecutiveColumn ''X'') \<and>
   modelFromMps nonConsecutiveDocument minimize \<noteq> Inl (8, NonConsecutiveColumn ''X'')"
  unfolding nonConsecutiveDocument_def by code_simp

text \<open>
  C10, as the code has it. Take a line that the loop over the lines of a column
  handles and whose first pair (fields 3 and 4) is accepted. The second pair (fields 5
  and 6) is handed to \<open>addCoefficient\<close> exactly when one of the two fields is not
  empty. With field 5 given and field 6 empty the line fails with the error for a
  missing coefficient, with field 5 empty and field 6 given it fails with the error
  for a missing row name, and the loop over the lines of the column returns that error
  at this line. When the line is the first line of a new column (an indented line with
  no marker in field 3 and the name of a column not yet read in field 2), the loop of
  \<^verbatim>\<open>readColumns\<close> returns that error with the cursor at this line.
\<close>

theorem second_pair_of_column_line:
  assumes "addCoefficient s variable (field3 line) (field4 line) = Inr variable1"
  shows "columnLine s variable line =
           (if field5 line \<noteq> [] \<or> field6 line \<noteq> []
            then addCoefficient s variable1 (field5 line) (field6 line)
            else Inr variable1) \<and>
         (field5 line \<noteq> [] \<and> field6 line = [] \<longrightarrow>
            columnLine s variable line = Inl MissingCoefficient \<and>
            columnBlock s variable cname line = (Some MissingCoefficient, variable, Some line, s)) \<and>
         (field5 line = [] \<and> field6 line \<noteq> [] \<longrightarrow>
            columnLine s variable line = Inl MissingRowName \<and>
            columnBlock s variable cname line = (Some MissingRowName, variable, Some line, s)) \<and>
         (variable = [] \<and> notSectionEnd (Some line) \<and> field3 line \<noteq> MARKER \<and>
          field2 line \<noteq> [] \<and> \<not> mapHas (variables m) (field2 line) \<longrightarrow>
            (field5 line \<noteq> [] \<and> field6 line = [] \<longrightarrow>
               readColumnsLoop s m integerMarked (Some line) = (Some MissingCoefficient, s, m)) \<and>
            (field5 line = [] \<and> field6 line \<noteq> [] \<longrightarrow>
               readColumnsLoop s m integerMarked (Some line) = (Some MissingRowName, s, m)))"
proof -
  have cl: "columnLine s variable line =
              (if field5 line \<noteq> [] \<or> field6 line \<noteq> []
               then addCoefficient s variable1 (field5 line) (field6 line)
               else Inr variable1)"
    using assms by (simp add: columnLine_def Let_def)
  have mc: "columnLine s variable line = Inl MissingCoefficient"
    if "field5 line \<noteq> []" and "field6 line = []"
    using cl that by (simp add: addCoefficient_def)
  have mr: "columnLine s variable line = Inl MissingRowName"
    if "field5 line = []" and "field6 line \<noteq> []"
    using cl that by (simp add: addCoefficient_def)
  have cb: "columnBlock s variable cn line = (Some e, variable, Some line, s)"
    if "columnLine s variable line = Inl e" for e cn
    using that by (subst columnBlock.simps) simp
  have rl: "readColumnsLoop s m integerMarked (Some line) = (Some e, s, m)"
    if "variable = []" and "notSectionEnd (Some line)" and "field3 line \<noteq> MARKER"
      and "field2 line \<noteq> []" and "\<not> mapHas (variables m) (field2 line)"
      and "columnLine s variable line = Inl e" for e
    using that cb [OF that(6), of "field2 line"] by simp
  from cl mc mr cb rl show ?thesis
    by blast
qed

theorem second_pair_of_column_line_witness:
  "columnLine rowsState [] ''    X         COST      1.0            LIM1'' = Inl MissingCoefficient \<and>
   columnLine rowsState [] ''    X         COST      1.0                      1.0'' = Inl MissingRowName \<and>
   columnLine rowsState [] ''    X         COST      1.0'' = Inr [(''COST'', Finite 1)] \<and>
   columnLine rowsState [] ''    X         COST      1.0            LIM1      1.0''
     = Inr [(''COST'', Finite 1), (''LIM1'', Finite 1)]"
proof -
  have a: "addCoefficient rowsState [] (field3 l) (field4 l) = Inr [(''COST'', Finite 1)]"
    if "field3 l = ''COST''" and "field4 l = ''1.0''" for l
    unfolding that by code_simp
  have f: "field3 ''    X         COST      1.0            LIM1'' = ''COST''"
    "field4 ''    X         COST      1.0            LIM1'' = ''1.0''"
    "field5 ''    X         COST      1.0            LIM1'' = ''LIM1''"
    "field6 ''    X         COST      1.0            LIM1'' = []"
    "field3 ''    X         COST      1.0                      1.0'' = ''COST''"
    "field4 ''    X         COST      1.0                      1.0'' = ''1.0''"
    "field5 ''    X         COST      1.0                      1.0'' = []"
    "field6 ''    X         COST      1.0                      1.0'' = ''1.0''"
    "field3 ''    X         COST      1.0'' = ''COST''"
    "field4 ''    X         COST      1.0'' = ''1.0''"
    "field5 ''    X         COST      1.0'' = []"
    "field6 ''    X         COST      1.0'' = []"
    "field3 ''    X         COST      1.0            LIM1      1.0'' = ''COST''"
    "field4 ''    X         COST      1.0            LIM1      1.0'' = ''1.0''"
    "field5 ''    X         COST      1.0            LIM1      1.0'' = ''LIM1''"
    "field6 ''    X         COST      1.0            LIM1      1.0'' = ''1.0''"
    by code_simp+
  have b: "addCoefficient rowsState [(''COST'', Finite 1)] ''LIM1'' ''1.0''
             = Inr [(''COST'', Finite 1), (''LIM1'', Finite 1)]"
    by code_simp
  have w1: "columnLine rowsState [] ''    X         COST      1.0            LIM1''
              = Inl MissingCoefficient"
    using second_pair_of_column_line [OF a [OF f(1,2)], THEN conjunct2, THEN conjunct1]
    by (simp add: f)
  have w2: "columnLine rowsState [] ''    X         COST      1.0                      1.0''
              = Inl MissingRowName"
    using second_pair_of_column_line [OF a [OF f(5,6)], THEN conjunct2, THEN conjunct2,
        THEN conjunct1]
    by (simp add: f)
  have w3: "columnLine rowsState [] ''    X         COST      1.0'' = Inr [(''COST'', Finite 1)]"
    using second_pair_of_column_line [OF a [OF f(9,10)], THEN conjunct1]
    by (simp add: f)
  have w4: "columnLine rowsState [] ''    X         COST      1.0            LIM1      1.0''
              = Inr [(''COST'', Finite 1), (''LIM1'', Finite 1)]"
    using second_pair_of_column_line [OF a [OF f(13,14)], THEN conjunct1]
    by (simp add: f b)
  from w1 w2 w3 w4 show ?thesis
    by simp
qed

text \<open>
  Without the condition on the first pair and on the kind of line the statement fails.
  A line whose first pair names a row that was not declared fails with the error for
  that row although its field 5 is given and its field 6 is empty; and on a marker line
  with field 5 given and field 6 empty the half pair is ignored and the document is
  read without error.
\<close>

theorem half_pair_counterexample:
  "field5 undefinedRowHalfPairLine \<noteq> [] \<and> field6 undefinedRowHalfPairLine = [] \<and>
   modelFromMps undefinedRowHalfPairDocument minimize = Inl (6, UndefinedRow ''NOPE'') \<and>
   modelFromMps undefinedRowHalfPairDocument minimize \<noteq> Inl (6, MissingCoefficient) \<and>
   field3 markerHalfPairLine = MARKER \<and>
   field5 markerHalfPairLine \<noteq> [] \<and> field6 markerHalfPairLine = [] \<and>
   modelFromMps markerHalfPairDocument minimize =
     Inr \<lparr>name = ''test'', direction = minimize, objective = Some ''COST'',
          constraints = [(''COST'', NegInf, PosInf), (''LIM1'', NegInf, Finite 10)],
          variables = [(''X'', [(''COST'', Finite 1), (''LIM1'', Finite 1)])],
          integers = [''X''], binaries = [], bounds = []\<rparr>"
  by code_simp

end
